theory Spec2Isabelle
  imports Main
begin

section \<open>Python values, exceptions and strings\<close>

text \<open>
  The two clients of \<^verbatim>\<open>lightning_polar_scripts\<close> (\<^verbatim>\<open>core_lightning.py\<close>,
  \<^verbatim>\<open>lnd.py\<close>) are embedded as functions over an explicit world: the file system
  the constructors read, the backend that answers HTTP requests, the list of requests
  issued so far, and the lines printed. An exception is a value: its class and the text
  \<^verbatim>\<open>str(e)\<close>, which the clients splice into the messages they re-raise.

  A string is a list of 8-bit characters, read as code points below 256. A decoded JSON
  body is a \<open>json\<close> value; JSON numbers with a fraction or an exponent (Python floats)
  are outside the value model, so a backend that answers with one is outside the
  theorems below. Texts of exceptions raised by the Python runtime itself are given as
  CPython 3.11 words them.
\<close>

datatype json =
    JNull
  | JBool bool
  | JInt int
  | JStr string
  | JList "json list"
  | JObj "(string \<times> json) list"

text \<open>
  The payload of a request is a Python value the client builds: integers, strings, the
  float literal of \<^verbatim>\<open>get_route\<close> (kept as its text) and dictionaries, in insertion
  order.
\<close>

datatype pyval =
    PInt int
  | PStr string
  | PFloat string
  | PDict "(string \<times> pyval) list"

datatype exc_class =
    ValueError
  | ConnectionError
  | RuntimeError
  | KeyError
  | TypeError
  | AttributeError
  | IndexError
  | OSError

type_synonym exn = "exc_class \<times> string"

type_synonym 'a result = "exn + 'a"

definition res_bind :: "'a result \<Rightarrow> ('a \<Rightarrow> 'b result) \<Rightarrow> 'b result" where
  "res_bind r f = (case r of Inl e \<Rightarrow> Inl e | Inr x \<Rightarrow> f x)"

definition squote :: string where
  "squote = [CHR 0x27]"

definition quoted :: "string \<Rightarrow> string" where
  \<comment> \<open>\<^verbatim>\<open>f"'{s}'"\<close>\<close>
  "quoted s = squote @ s @ squote"

subsection \<open>Decimal and hexadecimal text\<close>

definition digit_char :: "nat \<Rightarrow> char" where
  "digit_char d = ''0123456789'' ! d"

fun str_nat :: "nat \<Rightarrow> string" where
  "str_nat n = (if n < 10 then [digit_char n] else str_nat (n div 10) @ [digit_char (n mod 10)])"

declare str_nat.simps [simp del]

definition str_int :: "int \<Rightarrow> string" where
  \<comment> \<open>\<^verbatim>\<open>str(i)\<close> for a Python int\<close>
  "str_int i = (if i < 0 then CHR ''-'' # str_nat (nat (- i)) else str_nat (nat i))"

definition hex_char :: "nat \<Rightarrow> char" where
  "hex_char d = ''0123456789abcdef'' ! d"

definition hex_byte :: "char \<Rightarrow> string" where
  "hex_byte c = [hex_char (of_char c div 16), hex_char (of_char c mod 16)]"


subsection \<open>Python string operations\<close>

definition is_space :: "char \<Rightarrow> bool" where
  \<comment> \<open>\<^verbatim>\<open>str.isspace\<close> on the code points below 256\<close>
  "is_space c = (let n = (of_char c :: nat) in
     (9 \<le> n \<and> n \<le> 13) \<or> (28 \<le> n \<and> n \<le> 32) \<or> n = 133 \<or> n = 160)"

definition py_strip :: "string \<Rightarrow> string" where
  \<comment> \<open>\<^verbatim>\<open>s.strip()\<close>\<close>
  "py_strip s = rev (dropWhile is_space (rev (dropWhile is_space s)))"

fun py_split :: "char \<Rightarrow> string \<Rightarrow> string list" where
  \<comment> \<open>\<^verbatim>\<open>s.split(sep)\<close> for a separator of one character\<close>
  "py_split sep [] = [[]]"
| "py_split sep (c # cs) =
     (if c = sep then [] # py_split sep cs
      else (case py_split sep cs of
              [] \<Rightarrow> [[c]]
            | p # ps \<Rightarrow> (c # p) # ps))"

definition py_upper :: "string \<Rightarrow> string" where
  \<comment> \<open>\<^verbatim>\<open>s.upper()\<close> on ASCII letters; the clients call it on the literals GET, POST, DELETE\<close>
  "py_upper s = map (\<lambda>c. if 97 \<le> (of_char c :: nat) \<and> (of_char c :: nat) \<le> 122
                            then char_of ((of_char c :: nat) - 32) else c) s"

definition repr_char :: "char \<Rightarrow> char \<Rightarrow> string" where
  "repr_char qu c = (let n = (of_char c :: nat) in
     if c = qu \<or> c = CHR 0x5C then [CHR 0x5C, c]
     else if n = 9 then [CHR 0x5C, CHR ''t'']
     else if n = 10 then [CHR 0x5C, CHR ''n'']
     else if n = 13 then [CHR 0x5C, CHR ''r'']
     else if n < 32 \<or> (127 \<le> n \<and> n \<le> 160) \<or> n = 173 then [CHR 0x5C, CHR ''x''] @ hex_byte c
     else [c])"

definition py_repr :: "string \<Rightarrow> string" where
  \<comment> \<open>\<^verbatim>\<open>repr(s)\<close> of a str\<close>
  "py_repr s = (let qu = (if CHR 0x27 \<in> set s \<and> CHR 0x22 \<notin> set s then CHR 0x22 else CHR 0x27)
     in qu # concat (map (repr_char qu) s) @ [qu])"

subsection \<open>Operations on decoded JSON\<close>

fun type_name :: "json \<Rightarrow> string" where
  "type_name JNull = ''NoneType''"
| "type_name (JBool _) = ''bool''"
| "type_name (JInt _) = ''int''"
| "type_name (JStr _) = ''str''"
| "type_name (JList _) = ''list''"
| "type_name (JObj _) = ''dict''"

fun py_get :: "json \<Rightarrow> string \<Rightarrow> json \<Rightarrow> json result" where
  \<comment> \<open>\<^verbatim>\<open>d.get(key, default)\<close>; only a dict has the attribute\<close>
  "py_get (JObj kvs) k dflt = Inr (case map_of kvs k of None \<Rightarrow> dflt | Some v \<Rightarrow> v)"
| "py_get j k dflt =
     Inl (AttributeError, quoted (type_name j) @ '' object has no attribute '' @ quoted ''get'')"

fun py_getitem :: "json \<Rightarrow> string \<Rightarrow> json result" where
  \<comment> \<open>\<^verbatim>\<open>d[key]\<close> with a str key\<close>
  "py_getitem (JObj kvs) k =
     (case map_of kvs k of None \<Rightarrow> Inl (KeyError, py_repr k) | Some v \<Rightarrow> Inr v)"
| "py_getitem (JList _) k =
     Inl (TypeError, ''list indices must be integers or slices, not str'')"
| "py_getitem (JStr _) k =
     Inl (TypeError, ''string indices must be integers, not '' @ quoted ''str'')"
| "py_getitem j k = Inl (TypeError, quoted (type_name j) @ '' object is not subscriptable'')"

fun py_iter :: "json \<Rightarrow> json list result" where
  \<comment> \<open>the items a \<^verbatim>\<open>for\<close> loop sees: a dict yields its keys, a str its characters\<close>
  "py_iter (JList xs) = Inr xs"
| "py_iter (JObj kvs) = Inr (map (\<lambda>kv. JStr (fst kv)) kvs)"
| "py_iter (JStr s) = Inr (map (\<lambda>c. JStr [c]) s)"
| "py_iter j = Inl (TypeError, quoted (type_name j) @ '' object is not iterable'')"

fun py_add :: "int \<Rightarrow> json \<Rightarrow> int result" where
  \<comment> \<open>\<^verbatim>\<open>acc + v\<close> for an int accumulator, as \<^verbatim>\<open>sum\<close> adds; a bool is an int\<close>
  "py_add acc (JInt n) = Inr (acc + n)"
| "py_add acc (JBool b) = Inr (acc + (if b then 1 else 0))"
| "py_add acc j =
     Inl (TypeError, ''unsupported operand type(s) for +: '' @ quoted ''int'' @ '' and ''
            @ quoted (type_name j))"

subsection \<open>The built-in \<^verbatim>\<open>int\<close>\<close>

definition is_digit :: "char \<Rightarrow> bool" where
  "is_digit c = (48 \<le> (of_char c :: nat) \<and> (of_char c :: nat) \<le> 57)"

definition digit_val :: "char \<Rightarrow> nat" where
  "digit_val c = of_char c - 48"

definition is_int_space :: "char \<Rightarrow> bool" where
  \<comment> \<open>the white space \<^verbatim>\<open>int\<close> skips around a literal: the ASCII white space of C, and
      beyond ASCII the Unicode white space (below 256: U+0085 and U+00A0); unlike
      \<^verbatim>\<open>str.strip\<close>, not the separators U+001C to U+001F\<close>
  "is_int_space c = (let n = (of_char c :: nat) in
     (9 \<le> n \<and> n \<le> 13) \<or> n = 32 \<or> n = 133 \<or> n = 160)"

fun scan_digits :: "string \<Rightarrow> nat \<Rightarrow> nat \<Rightarrow> bool \<Rightarrow> (nat \<times> nat \<times> string) option" where
  \<comment> \<open>the run of digits and underscores at the head of a string: its value, its number of
      digits and the rest; \<open>None\<close> for two underscores in a row and for an underscore
      that ends the run\<close>
  "scan_digits [] acc n after_underscore = (if after_underscore then None else Some (acc, n, []))"
| "scan_digits (c # cs) acc n after_underscore =
     (if is_digit c then scan_digits cs (10 * acc + digit_val c) (Suc n) False
      else if c = CHR ''_'' then (if after_underscore then None else scan_digits cs acc n True)
      else if after_underscore then None
      else Some (acc, n, c # cs))"

definition max_str_digits :: nat where
  \<comment> \<open>the default of \<^verbatim>\<open>sys.get_int_max_str_digits()\<close>\<close>
  "max_str_digits = 4300"

definition invalid_literal :: "string \<Rightarrow> exn" where
  "invalid_literal s = (ValueError, ''invalid literal for int() with base 10: '' @ take 200 (py_repr s))"

definition int_of_str :: "string \<Rightarrow> int result" where
  \<comment> \<open>\<^verbatim>\<open>int(s)\<close> for a str, in the order of CPython's \<^verbatim>\<open>PyLong_FromString\<close>: leading
      white space, a sign, the run of digits, the limit on its length, trailing white
      space, and nothing else\<close>
  "int_of_str s =
     (let t = dropWhile is_int_space s;
          neg = (t \<noteq> [] \<and> hd t = CHR ''-'');
          u = (if t \<noteq> [] \<and> (hd t = CHR ''-'' \<or> hd t = CHR ''+'') then tl t else t)
      in if u \<noteq> [] \<and> hd u = CHR ''_'' then Inl (invalid_literal s)
         else (case scan_digits u 0 0 False of
                 None \<Rightarrow> Inl (invalid_literal s)
               | Some (v, n, rest) \<Rightarrow>
                   if max_str_digits < n
                   then Inl (ValueError,
                          ''Exceeds the limit (4300 digits) for integer string conversion: value has ''
                          @ str_nat n
                          @ '' digits; use sys.set_int_max_str_digits() to increase the limit'')
                   else if n = 0 \<or> dropWhile is_int_space rest \<noteq> [] then Inl (invalid_literal s)
                   else Inr (if neg then - int v else int v)))"

fun py_int :: "json \<Rightarrow> int result" where
  \<comment> \<open>\<^verbatim>\<open>int(v)\<close>\<close>
  "py_int (JInt n) = Inr n"
| "py_int (JBool b) = Inr (if b then 1 else 0)"
| "py_int (JStr s) = int_of_str s"
| "py_int j =
     Inl (TypeError, ''int() argument must be a string, a bytes-like object or a real number, not ''
            @ quoted (type_name j))"

section \<open>Configuration (\<^verbatim>\<open>config.py\<close>)\<close>

record node_config =
  name :: string
  implementation :: string
  rpc_host :: string
  rpc_port :: int
  rest_port :: "int option"
  macaroon_path :: "string option"
  cert_path :: "string option"
  rune_path :: "string option"
  client_cert_path :: "string option"
  client_key_path :: "string option"
  ca_cert_path :: "string option"
  socket_path :: "string option"

record polar_config =
  nodes :: "string \<rightharpoonup> node_config"
  polar_home :: string
  network_name :: string

section \<open>The world: files, the backend, the requests issued\<close>

text \<open>
  A path names no file, a file that exists but cannot be opened or read (a directory, a
  file without permission; the text is that of the \<^verbatim>\<open>OSError\<close>), or a file with its
  content.
\<close>

datatype file_state = Missing | Unreadable string | Content string

datatype verify_mode = Verify_default | Verify_path string | Verify_off

record request =
  verb :: string
  url :: string
  headers :: "(string \<times> string) list"
  payload :: "pyval option"
  client_cert :: "(string \<times> string) option"
  verify :: verify_mode

text \<open>
  What the \<^verbatim>\<open>requests\<close> library does with a request. The transport fails with
  \<^verbatim>\<open>requests.exceptions.ConnectionError\<close> (DNS, refused connection, TLS) or with
  another \<^verbatim>\<open>RequestException\<close> (a read timeout, too many redirects); or the library
  refuses the request before it connects, with a plain \<^verbatim>\<open>OSError\<close>, because a client
  certificate, key or CA file the request names is not found; or a response
  arrives, with its status code, the text \<^verbatim>\<open>raise_for_status\<close> gives its
  \<^verbatim>\<open>HTTPError\<close>, and its body. \<^verbatim>\<open>response.json()\<close> on a body that is not JSON raises
  \<^verbatim>\<open>requests.exceptions.JSONDecodeError\<close>, a \<^verbatim>\<open>RequestException\<close>, from requests
  2.27 on, and the plain \<^verbatim>\<open>json.JSONDecodeError\<close> before; both are modelled.
\<close>

datatype transport_failure = Connection_failure | Other_request_failure | Tls_file_not_found

datatype decode_error = Decode_error_requests | Decode_error_json

datatype body = Json json | Not_json decode_error string

datatype reply = Failed transport_failure string | Reply nat string body

record world =
  files :: "string \<Rightarrow> file_state"
  backend :: "request list \<Rightarrow> request \<Rightarrow> reply"
  sent :: "request list"
  stdout :: "string list"

type_synonym 'a io = "world \<Rightarrow> 'a result \<times> world"

definition io_bind :: "'a io \<Rightarrow> ('a \<Rightarrow> 'b io) \<Rightarrow> 'b io" where
  "io_bind m f = (\<lambda>w. case m w of (Inl e, w') \<Rightarrow> (Inl e, w') | (Inr x, w') \<Rightarrow> f x w')"

definition io_pure :: "'a result \<Rightarrow> 'a io" where
  "io_pure r = (\<lambda>w. (r, w))"

definition reraise :: "exc_class \<Rightarrow> string \<Rightarrow> 'a io \<Rightarrow> 'a io" where
  \<comment> \<open>\<^verbatim>\<open>try: m except Exception as e: raise cls(f"{prefix}{e}")\<close>\<close>
  "reraise cls prefix m =
     (\<lambda>w. case m w of (Inl e, w') \<Rightarrow> (Inl (cls, prefix @ snd e), w') | (Inr x, w') \<Rightarrow> (Inr x, w'))"

definition http_error_status :: "nat \<Rightarrow> bool" where
  \<comment> \<open>the statuses for which \<^verbatim>\<open>raise_for_status\<close> raises\<close>
  "http_error_status st = (400 \<le> st \<and> st < 600)"

definition transmit :: "request \<Rightarrow> world \<Rightarrow> reply \<times> world" where
  \<comment> \<open>hand a request to the library: it is recorded, and the backend answers\<close>
  "transmit rq w = (backend w (sent w) rq, w\<lparr>sent := sent w @ [rq]\<rparr>)"

fun dict_set :: "string \<Rightarrow> 'v \<Rightarrow> (string \<times> 'v) list \<Rightarrow> (string \<times> 'v) list" where
  \<comment> \<open>\<^verbatim>\<open>d[k] = v\<close>: an existing key keeps its place, a new one goes last\<close>
  "dict_set k v [] = [(k, v)]"
| "dict_set k v (kv # kvs) = (if fst kv = k then (k, v) # kvs else kv # dict_set k v kvs)"

definition read_file :: "string \<Rightarrow> world \<Rightarrow> string result" where
  \<comment> \<open>\<^verbatim>\<open>open(path).read()\<close>\<close>
  "read_file p w =
     (case files w p of
        Missing \<Rightarrow> Inl (OSError, ''[Errno 2] No such file or directory: '' @ py_repr p)
      | Unreadable msg \<Rightarrow> Inl (OSError, msg)
      | Content s \<Rightarrow> Inr s)"

datatype lib_exc =
    Requests_ConnectionError
  | Requests_HTTPError
  | Requests_JSONDecodeError
  | Requests_Other
  | Json_JSONDecodeError
  | Plain_OSError

definition is_request_exception :: "lib_exc \<Rightarrow> bool" where
  \<comment> \<open>the subclasses of \<^verbatim>\<open>requests.exceptions.RequestException\<close>\<close>
  "is_request_exception k = (k \<noteq> Json_JSONDecodeError \<and> k \<noteq> Plain_OSError)"

definition exchange :: "request \<Rightarrow> world \<Rightarrow> ((lib_exc \<times> string) + json) \<times> world" where
  \<comment> \<open>the request, then \<^verbatim>\<open>response.raise_for_status()\<close>, then \<^verbatim>\<open>response.json()\<close>\<close>
  "exchange rq w =
     (case transmit rq w of
        (Failed Connection_failure msg, w') \<Rightarrow> (Inl (Requests_ConnectionError, msg), w')
      | (Failed Other_request_failure msg, w') \<Rightarrow> (Inl (Requests_Other, msg), w')
      | (Failed Tls_file_not_found msg, w') \<Rightarrow> (Inl (Plain_OSError, msg), w')
      | (Reply st err b, w') \<Rightarrow>
          if http_error_status st then (Inl (Requests_HTTPError, err), w')
          else (case b of
                  Json j \<Rightarrow> (Inr j, w')
                | Not_json Decode_error_requests msg \<Rightarrow> (Inl (Requests_JSONDecodeError, msg), w')
                | Not_json Decode_error_json msg \<Rightarrow> (Inl (Json_JSONDecodeError, msg), w')))"

section \<open>\<^verbatim>\<open>CoreLightningClient\<close> (\<^verbatim>\<open>core_lightning.py\<close>)\<close>

record cln_client =
  cln_node_config :: node_config
  cln_base_url :: string
  cln_node_name :: string
  session_headers :: "(string \<times> string) list"
  session_cert :: "(string \<times> string) option"
  session_verify :: verify_mode

definition cln_setup_auth :: "cln_client \<Rightarrow> world \<Rightarrow> cln_client \<times> world" where
  "cln_setup_auth c w =
     (let nc = cln_node_config c;
          (c1, w1) =
            (case rune_path nc of
               None \<Rightarrow> (c, w)
             | Some p \<Rightarrow>
                 if p = [] then (c, w)
                 else (case read_file p w of
                         Inr s \<Rightarrow> (c\<lparr>session_headers := dict_set ''Rune'' (py_strip s) (session_headers c)\<rparr>, w)
                       | Inl e \<Rightarrow> (c, w\<lparr>stdout := stdout w @ [''Warning: Could not read rune file: '' @ snd e]\<rparr>)));
          c2 =
            (case (client_cert_path nc, client_key_path nc) of
               (Some cp, Some kp) \<Rightarrow> if cp \<noteq> [] \<and> kp \<noteq> [] then c1\<lparr>session_cert := Some (cp, kp)\<rparr> else c1
             | _ \<Rightarrow> c1);
          c3 =
            (case ca_cert_path nc of
               None \<Rightarrow> c2
             | Some ca \<Rightarrow> if ca = [] then c2 else c2\<lparr>session_verify := Verify_path ca\<rparr>)
      in (c3, w1))"

definition cln_init :: "polar_config \<Rightarrow> string \<Rightarrow> cln_client io" where
  \<comment> \<open>\<^verbatim>\<open>CoreLightningClient.__init__\<close>\<close>
  "cln_init config node_name = (\<lambda>w.
     case nodes config node_name of
       None \<Rightarrow> (Inl (ValueError, ''Node '' @ quoted node_name @ '' not found in configuration''), w)
     | Some nc \<Rightarrow>
         if implementation nc \<noteq> ''CLN''
         then (Inl (ValueError, ''Node '' @ quoted node_name @ '' is not a Core Lightning node''), w)
         else (case rest_port nc of
                 None \<Rightarrow> (Inl (ValueError, ''REST port not configured for node '' @ quoted node_name), w)
               | Some pt \<Rightarrow>
                   if pt = 0
                   then (Inl (ValueError, ''REST port not configured for node '' @ quoted node_name), w)
                   else (case cln_setup_auth
                                \<lparr>cln_node_config = nc,
                                 cln_base_url = ''http://'' @ rpc_host nc @ '':'' @ str_int pt,
                                 cln_node_name = node_name,
                                 session_headers = [],
                                 session_cert = None,
                                 session_verify = Verify_default\<rparr> w of
                           (c, w') \<Rightarrow> (Inr c, w'))))"

definition cln_request :: "cln_client \<Rightarrow> string \<Rightarrow> (string \<times> pyval) list \<Rightarrow> request" where
  \<comment> \<open>the POST of \<^verbatim>\<open>_make_request\<close>: \<^verbatim>\<open>self.session.post(url, json=payload)\<close>\<close>
  "cln_request c m ps =
     \<lparr>verb = ''POST'',
      url = cln_base_url c @ ''/v1/'' @ m,
      headers = session_headers c,
      payload = Some (PDict ps),
      client_cert = session_cert c,
      verify = session_verify c\<rparr>"

definition cln_make_request :: "cln_client \<Rightarrow> string \<Rightarrow> (string \<times> pyval) list option \<Rightarrow> json io" where
  \<comment> \<open>\<^verbatim>\<open>CoreLightningClient._make_request\<close>; \<^verbatim>\<open>params\<close> that is \<^verbatim>\<open>None\<close> or empty posts \<^verbatim>\<open>{}\<close>;
      an exception neither \<^verbatim>\<open>except\<close> clause names leaves the method as it is\<close>
  "cln_make_request c m params = (\<lambda>w.
     case exchange (cln_request c m (case params of None \<Rightarrow> [] | Some ps \<Rightarrow> ps)) w of
       (Inr j, w') \<Rightarrow> (Inr j, w')
     | (Inl (k, msg), w') \<Rightarrow>
         if is_request_exception k
         then (Inl (ConnectionError,
                 ''Failed to connect to CLN node '' @ quoted (cln_node_name c) @ '': '' @ msg), w')
         else if k = Json_JSONDecodeError
         then (Inl (RuntimeError,
                 ''Invalid JSON response from CLN node '' @ quoted (cln_node_name c) @ '': '' @ msg), w')
         else (Inl (OSError, msg), w'))"

definition cln_get_info :: "cln_client \<Rightarrow> (string \<times> json) list io" where
  "cln_get_info c =
     reraise ConnectionError
       (''Failed to get info from CLN node '' @ quoted (cln_node_name c) @ '': '')
       (io_bind (cln_make_request c ''getinfo'' None) (\<lambda>info.
        io_pure
          (res_bind (py_get info ''id'' JNull) (\<lambda>v1.
           res_bind (py_get info ''alias'' JNull) (\<lambda>v2.
           res_bind (py_get info ''color'' JNull) (\<lambda>v3.
           res_bind (py_get info ''num_peers'' JNull) (\<lambda>v4.
           res_bind (py_get info ''num_pending_channels'' JNull) (\<lambda>v5.
           res_bind (py_get info ''num_active_channels'' JNull) (\<lambda>v6.
           res_bind (py_get info ''num_inactive_channels'' JNull) (\<lambda>v7.
           res_bind (py_get info ''blockheight'' JNull) (\<lambda>v8.
           res_bind (py_get info ''network'' JNull) (\<lambda>v9.
           res_bind (py_get info ''version'' JNull) (\<lambda>v10.
           Inr [(''id'', v1), (''alias'', v2), (''color'', v3), (''num_peers'', v4),
                (''num_pending_channels'', v5), (''num_active_channels'', v6),
                (''num_inactive_channels'', v7), (''blockheight'', v8),
                (''network'', v9), (''version'', v10)])))))))))))))"

fun sum_confirmed_outputs :: "json list \<Rightarrow> int \<Rightarrow> int result" where
  \<comment> \<open>\<^verbatim>\<open>sum(output['amount_msat'] for output in ... if output.get('status') == 'confirmed')\<close>\<close>
  "sum_confirmed_outputs [] acc = Inr acc"
| "sum_confirmed_outputs (out # rest) acc =
     (case py_get out ''status'' JNull of
        Inl e \<Rightarrow> Inl e
      | Inr st \<Rightarrow>
          if st = JStr ''confirmed''
          then (case py_getitem out ''amount_msat'' of
                  Inl e \<Rightarrow> Inl e
                | Inr a \<Rightarrow>
                    (case py_add acc a of
                       Inl e \<Rightarrow> Inl e
                     | Inr acc' \<Rightarrow> sum_confirmed_outputs rest acc'))
          else sum_confirmed_outputs rest acc)"

fun sum_channels :: "json list \<Rightarrow> int \<Rightarrow> int result" where
  \<comment> \<open>\<^verbatim>\<open>sum(channel['our_amount_msat'] for channel in ...)\<close>\<close>
  "sum_channels [] acc = Inr acc"
| "sum_channels (ch # rest) acc =
     (case py_getitem ch ''our_amount_msat'' of
        Inl e \<Rightarrow> Inl e
      | Inr a \<Rightarrow>
          (case py_add acc a of
             Inl e \<Rightarrow> Inl e
           | Inr acc' \<Rightarrow> sum_channels rest acc'))"

definition balance_of_funds :: "json \<Rightarrow> int result" where
  \<comment> \<open>the body of \<^verbatim>\<open>get_balance\<close> after the request\<close>
  "balance_of_funds balance =
     res_bind (py_get balance ''outputs'' (JList [])) (\<lambda>outputs.
     res_bind (py_iter outputs) (\<lambda>outs.
     res_bind (sum_confirmed_outputs outs 0) (\<lambda>total_outputs.
     res_bind (py_get balance ''channels'' (JList [])) (\<lambda>channels.
     res_bind (py_iter channels) (\<lambda>chans.
     res_bind (sum_channels chans 0) (\<lambda>total_channels.
     Inr ((total_outputs + total_channels) div 1000)))))))"

definition cln_get_balance :: "cln_client \<Rightarrow> int io" where
  "cln_get_balance c =
     reraise ConnectionError
       (''Failed to get balance from CLN node '' @ quoted (cln_node_name c) @ '': '')
       (io_bind (cln_make_request c ''listfunds'' None) (\<lambda>balance.
        io_pure (balance_of_funds balance)))"

definition cln_list_channels :: "cln_client \<Rightarrow> json io" where
  "cln_list_channels c =
     reraise ConnectionError
       (''Failed to list channels from CLN node '' @ quoted (cln_node_name c) @ '': '')
       (io_bind (cln_make_request c ''listchannels'' None) (\<lambda>channels.
        io_pure (py_get channels ''channels'' (JList []))))"

definition cln_list_peers :: "cln_client \<Rightarrow> json io" where
  "cln_list_peers c =
     reraise ConnectionError
       (''Failed to list peers from CLN node '' @ quoted (cln_node_name c) @ '': '')
       (io_bind (cln_make_request c ''listpeers'' None) (\<lambda>peers.
        io_pure (py_get peers ''peers'' (JList []))))"

definition cln_list_invoices :: "cln_client \<Rightarrow> json io" where
  "cln_list_invoices c =
     reraise ConnectionError
       (''Failed to list invoices from CLN node '' @ quoted (cln_node_name c) @ '': '')
       (io_bind (cln_make_request c ''listinvoices'' None) (\<lambda>invoices.
        io_pure (py_get invoices ''invoices'' (JList []))))"

definition cln_list_payments :: "cln_client \<Rightarrow> json io" where
  "cln_list_payments c =
     reraise ConnectionError
       (''Failed to list payments from CLN node '' @ quoted (cln_node_name c) @ '': '')
       (io_bind (cln_make_request c ''listpays'' None) (\<lambda>payments.
        io_pure (py_get payments ''pays'' (JList []))))"

definition cln_create_invoice ::
  "cln_client \<Rightarrow> int \<Rightarrow> string \<Rightarrow> string option \<Rightarrow> (string \<times> json) list io" where
  "cln_create_invoice c amount_sats label description =
     reraise RuntimeError
       (''Failed to create invoice on CLN node '' @ quoted (cln_node_name c) @ '': '')
       (let amount_msat = amount_sats * 1000;
            params = [(''amount_msat'', PInt amount_msat),
                      (''label'', PStr label),
                      (''description'', PStr (case description of
                                                None \<Rightarrow> label
                                              | Some d \<Rightarrow> if d = [] then label else d))]
        in io_bind (cln_make_request c ''invoice'' (Some params)) (\<lambda>invoice.
           io_pure
             (res_bind (py_get invoice ''payment_hash'' JNull) (\<lambda>payment_hash.
              res_bind (py_get invoice ''bolt11'' JNull) (\<lambda>bolt11.
              res_bind (py_get invoice ''expires_at'' JNull) (\<lambda>expires_at.
              Inr [(''payment_hash'', payment_hash),
                   (''payment_request'', bolt11),
                   (''expires_at'', expires_at)]))))))"

definition pay_params :: "string \<Rightarrow> int option \<Rightarrow> (string \<times> pyval) list" where
  \<comment> \<open>the \<^verbatim>\<open>params\<close> of \<^verbatim>\<open>pay_invoice\<close>: \<^verbatim>\<open>if amount_sats:\<close> tests the truth value\<close>
  "pay_params payment_request amount_sats =
     (case amount_sats of
        None \<Rightarrow> [(''bolt11'', PStr payment_request)]
      | Some a \<Rightarrow>
          if a \<noteq> 0
          then dict_set ''amount_msat'' (PInt (a * 1000)) [(''bolt11'', PStr payment_request)]
          else [(''bolt11'', PStr payment_request)])"

definition cln_pay_invoice ::
  "cln_client \<Rightarrow> string \<Rightarrow> int option \<Rightarrow> (string \<times> json) list io" where
  "cln_pay_invoice c payment_request amount_sats =
     reraise RuntimeError
       (''Failed to pay invoice on CLN node '' @ quoted (cln_node_name c) @ '': '')
       (io_bind (cln_make_request c ''pay'' (Some (pay_params payment_request amount_sats))) (\<lambda>res.
        io_pure
          (res_bind (py_get res ''payment_hash'' JNull) (\<lambda>payment_hash.
           res_bind (py_get res ''payment_preimage'' JNull) (\<lambda>payment_preimage.
           res_bind (py_get res ''amount_sent_msat'' JNull) (\<lambda>amount_sent_msat.
           res_bind (py_get res ''status'' JNull) (\<lambda>status.
           Inr [(''payment_hash'', payment_hash),
                (''payment_preimage'', payment_preimage),
                (''amount_sent_msat'', amount_sent_msat),
                (''status'', status)])))))))"

definition peer_address :: "string \<Rightarrow> string option \<Rightarrow> int option \<Rightarrow> string" where
  \<comment> \<open>node id, at sign, host, colon, port when \<^verbatim>\<open>host and port\<close> holds, else the node id; in both clients\<close>
  "peer_address node_id host port =
     (case (host, port) of
        (Some h, Some p) \<Rightarrow> if h \<noteq> [] \<and> p \<noteq> 0 then node_id @ ''@'' @ h @ '':'' @ str_int p else node_id
      | _ \<Rightarrow> node_id)"

definition cln_connect_peer ::
  "cln_client \<Rightarrow> string \<Rightarrow> string option \<Rightarrow> int option \<Rightarrow> bool io" where
  "cln_connect_peer c node_id host port =
     reraise RuntimeError
       (''Failed to connect to peer on CLN node '' @ quoted (cln_node_name c) @ '': '')
       (io_bind (cln_make_request c ''connect'' (Some [(''id'', PStr (peer_address node_id host port))]))
          (\<lambda>_. io_pure (Inr True)))"

definition open_channel_params :: "string \<Rightarrow> int \<Rightarrow> int \<Rightarrow> (string \<times> pyval) list" where
  "open_channel_params node_id amount_sats push_sats =
     (if push_sats > 0
      then dict_set ''push_msat'' (PInt (push_sats * 1000))
             [(''id'', PStr node_id), (''amount'', PInt amount_sats)]
      else [(''id'', PStr node_id), (''amount'', PInt amount_sats)])"

definition cln_open_channel ::
  "cln_client \<Rightarrow> string \<Rightarrow> int \<Rightarrow> int \<Rightarrow> (string \<times> json) list io" where
  "cln_open_channel c node_id amount_sats push_sats =
     reraise RuntimeError
       (''Failed to open channel on CLN node '' @ quoted (cln_node_name c) @ '': '')
       (io_bind (cln_make_request c ''fundchannel''
                   (Some (open_channel_params node_id amount_sats push_sats))) (\<lambda>res.
        io_pure
          (res_bind (py_get res ''txid'' JNull) (\<lambda>txid.
           res_bind (py_get res ''outnum'' JNull) (\<lambda>outnum.
           res_bind (py_get res ''channel_id'' JNull) (\<lambda>channel_id.
           Inr [(''funding_txid'', txid),
                (''funding_output'', outnum),
                (''channel_id'', channel_id)]))))))"

definition cln_close_channel ::
  "cln_client \<Rightarrow> string \<Rightarrow> bool \<Rightarrow> (string \<times> json) list io" where
  "cln_close_channel c channel_id force =
     reraise RuntimeError
       (''Failed to close channel on CLN node '' @ quoted (cln_node_name c) @ '': '')
       (let params = (if force
                      then dict_set ''unilateraltimeout'' (PInt 1) [(''id'', PStr channel_id)]
                      else [(''id'', PStr channel_id)])
        in io_bind (cln_make_request c ''close'' (Some params)) (\<lambda>res.
           io_pure
             (res_bind (py_get res ''txid'' JNull) (\<lambda>txid.
              res_bind (py_get res ''type'' JNull) (\<lambda>ty.
              Inr [(''closing_txid'', txid), (''type'', ty)])))))"

definition cln_decode_invoice :: "cln_client \<Rightarrow> string \<Rightarrow> (string \<times> json) list io" where
  "cln_decode_invoice c payment_request =
     reraise RuntimeError
       (''Failed to decode invoice on CLN node '' @ quoted (cln_node_name c) @ '': '')
       (io_bind (cln_make_request c ''decode'' (Some [(''string'', PStr payment_request)])) (\<lambda>decoded.
        io_pure
          (res_bind (py_get decoded ''payment_hash'' JNull) (\<lambda>payment_hash.
           res_bind (py_get decoded ''payee'' JNull) (\<lambda>payee.
           res_bind (py_get decoded ''amount_msat'' JNull) (\<lambda>amount_msat.
           res_bind (py_get decoded ''created_at'' JNull) (\<lambda>created_at.
           res_bind (py_get decoded ''expiry'' JNull) (\<lambda>expiry.
           res_bind (py_get decoded ''description'' JNull) (\<lambda>description.
           Inr [(''payment_hash'', payment_hash),
                (''destination'', payee),
                (''amount_msat'', amount_msat),
                (''timestamp'', created_at),
                (''expiry'', expiry),
                (''description'', description)])))))))))"

definition cln_get_route :: "cln_client \<Rightarrow> string \<Rightarrow> int \<Rightarrow> json io" where
  "cln_get_route c destination amount_sats =
     reraise RuntimeError
       (''Failed to get route on CLN node '' @ quoted (cln_node_name c) @ '': '')
       (let amount_msat = amount_sats * 1000;
            params = [(''id'', PStr destination),
                      (''amount_msat'', PInt amount_msat),
                      (''riskfactor'', PFloat ''1.0'')]
        in io_bind (cln_make_request c ''getroute'' (Some params)) (\<lambda>route.
           io_pure (py_get route ''route'' (JList []))))"

section \<open>\<^verbatim>\<open>LNDClient\<close> (\<^verbatim>\<open>lnd.py\<close>)\<close>

record lnd_client =
  lnd_node_config :: node_config
  lnd_node_name :: string
  lnd_base_url :: string
  lnd_headers :: "(string \<times> string) list"
  lnd_verify :: verify_mode







definition lnd_request :: "lnd_client \<Rightarrow> string \<Rightarrow> string \<Rightarrow> pyval option \<Rightarrow> request" where
  \<comment> \<open>\<^verbatim>\<open>requests.get/post/delete(url, headers=self.headers, ..., verify=self.verify)\<close>\<close>
  "lnd_request c v endpoint data =
     \<lparr>verb = v,
      url = lnd_base_url c @ endpoint,
      headers = lnd_headers c,
      payload = data,
      client_cert = None,
      verify = lnd_verify c\<rparr>"

definition lnd_rethrow :: "lnd_client \<Rightarrow> string \<Rightarrow> lib_exc \<times> string \<Rightarrow> exn" where
  \<comment> \<open>the \<^verbatim>\<open>except\<close> clauses of \<^verbatim>\<open>LNDClient._make_request\<close>, in their order; an
      exception none of them names leaves the method as it is\<close>
  "lnd_rethrow c u e =
     (if fst e = Requests_ConnectionError
      then (ConnectionError, ''Failed to connect to LND node '' @ quoted (lnd_node_name c)
                               @ '' at '' @ u @ '': '' @ snd e)
      else if fst e = Requests_HTTPError
      then (RuntimeError, ''HTTP error from LND node '' @ quoted (lnd_node_name c) @ '': '' @ snd e)
      else if is_request_exception (fst e)
      then (RuntimeError, ''Request error from LND node '' @ quoted (lnd_node_name c) @ '': '' @ snd e)
      else if fst e = Json_JSONDecodeError
      then (RuntimeError, ''Invalid JSON response from LND node '' @ quoted (lnd_node_name c)
                            @ '': '' @ snd e)
      else (OSError, snd e))"

definition lnd_make_request ::
  "lnd_client \<Rightarrow> string \<Rightarrow> string \<Rightarrow> pyval option \<Rightarrow> json io" where
  \<comment> \<open>\<^verbatim>\<open>LNDClient._make_request\<close>; only POST carries the data\<close>
  "lnd_make_request c v endpoint data = (\<lambda>w.
     if py_upper v = ''GET'' \<or> py_upper v = ''POST'' \<or> py_upper v = ''DELETE''
     then (case exchange (lnd_request c (py_upper v) endpoint
                            (if py_upper v = ''POST'' then data else None)) w of
             (Inr j, w') \<Rightarrow> (Inr j, w')
           | (Inl e, w') \<Rightarrow> (Inl (lnd_rethrow c (lnd_base_url c @ endpoint) e), w'))
     else (Inl (ValueError, ''Unsupported HTTP method: '' @ v), w))"

definition lnd_get_balance :: "lnd_client \<Rightarrow> int io" where
  "lnd_get_balance c =
     reraise ConnectionError
       (''Failed to get balance from LND node '' @ quoted (lnd_node_name c) @ '': '')
       (io_bind (lnd_make_request c ''GET'' ''/v1/balance/blockchain'' None) (\<lambda>wallet_response.
        io_bind (io_pure (res_bind (py_get wallet_response ''confirmed_balance'' (JInt 0)) py_int))
          (\<lambda>wallet_balance.
        io_bind (lnd_make_request c ''GET'' ''/v1/balance/channels'' None) (\<lambda>channel_response.
        io_bind (io_pure (res_bind (py_get channel_response ''balance'' (JInt 0)) py_int))
          (\<lambda>channel_balance.
        io_pure (Inr (wallet_balance + channel_balance)))))))"

definition py_index :: "string list \<Rightarrow> nat \<Rightarrow> string result" where
  \<comment> \<open>\<^verbatim>\<open>xs[i]\<close> for a constant index \<^verbatim>\<open>i \<ge> 0\<close>\<close>
  "py_index xs i = (if i < length xs then Inr (xs ! i) else Inl (IndexError, ''list index out of range''))"

definition connect_peer_addr :: "string \<Rightarrow> string option \<Rightarrow> int option \<Rightarrow> pyval result" where
  \<comment> \<open>the \<^verbatim>\<open>data\<close> dictionary of \<^verbatim>\<open>LNDClient.connect_peer\<close>\<close>
  "connect_peer_addr node_id host port =
     (let address = peer_address node_id host port
      in res_bind (if CHR ''@'' \<in> set node_id then py_index (py_split CHR ''@'' node_id) 0
                   else Inr node_id) (\<lambda>pubkey.
         res_bind (if CHR ''@'' \<in> set address then py_index (py_split CHR ''@'' address) 1
                   else Inr (case (host, port) of
                               (Some h, Some p) \<Rightarrow>
                                 if h \<noteq> [] \<and> p \<noteq> 0 then h @ '':'' @ str_int p else []
                             | _ \<Rightarrow> [])) (\<lambda>hst.
         Inr (PDict [(''addr'', PDict [(''pubkey'', PStr pubkey), (''host'', PStr hst)])]))))"

definition lnd_connect_peer ::
  "lnd_client \<Rightarrow> string \<Rightarrow> string option \<Rightarrow> int option \<Rightarrow> bool io" where
  "lnd_connect_peer c node_id host port =
     reraise RuntimeError
       (''Failed to connect to peer on LND node '' @ quoted (lnd_node_name c) @ '': '')
       (io_bind (io_pure (connect_peer_addr node_id host port)) (\<lambda>data.
        io_bind (lnd_make_request c ''POST'' ''/v1/peers'' (Some data)) (\<lambda>_.
        io_pure (Inr True))))"

definition unpack_channel_point :: "string \<Rightarrow> (string \<times> string) result" where
  \<comment> \<open>\<^verbatim>\<open>txid, output_index = channel_point.split(':')\<close>\<close>
  "unpack_channel_point channel_point =
     (case py_split CHR '':'' channel_point of
        [txid, output_index] \<Rightarrow> Inr (txid, output_index)
      | parts \<Rightarrow>
          if length parts < 2
          then Inl (ValueError, ''not enough values to unpack (expected 2, got ''
                                  @ str_nat (length parts) @ '')'')
          else Inl (ValueError, ''too many values to unpack (expected 2)''))"

definition lnd_close_channel ::
  "lnd_client \<Rightarrow> string \<Rightarrow> bool \<Rightarrow> (string \<times> json) list io" where
  "lnd_close_channel c channel_point force =
     reraise RuntimeError
       (''Failed to close channel on LND node '' @ quoted (lnd_node_name c) @ '': '')
       (io_bind (io_pure (unpack_channel_point channel_point)) (\<lambda>(txid, output_index).
        let endpoint = ''/v1/channels/'' @ txid @ ''/'' @ output_index
                         @ (if force then ''?force=true'' else [])
        in io_bind (lnd_make_request c ''DELETE'' endpoint None) (\<lambda>response.
           io_pure (res_bind (py_get response ''closing_txid'' JNull) (\<lambda>closing_txid.
                    Inr [(''closing_txid'', closing_txid)])))))"

section \<open>Definitions that follow the specification\<close>

text \<open>
  The specification states the CLN balance as a sum over the outputs whose status equals
  "confirmed" plus a sum over all channels, floor-divided by 1000. These definitions say
  that in its words, over the decoded \<^verbatim>\<open>listfunds\<close> response; the theorems compare
  them with \<open>cln_get_balance\<close>, which is translated from the source. Likewise
  \<open>field_or\<close> is the field of a response the specification names, \<open>failing_reply\<close>
  is its notion of a failed request, and \<open>decimal_value\<close> is the number a string of
  digits writes.
\<close>

fun is_dict :: "json \<Rightarrow> bool" where
  "is_dict (JObj _) = True"
| "is_dict _ = False"

fun is_confirmed :: "json \<Rightarrow> bool" where
  "is_confirmed (JObj kvs) = (map_of kvs ''status'' = Some (JStr ''confirmed''))"
| "is_confirmed _ = False"

fun msat_field :: "string \<Rightarrow> json \<Rightarrow> int option" where
  "msat_field k (JObj kvs) = (case map_of kvs k of Some (JInt n) \<Rightarrow> Some n | _ \<Rightarrow> None)"
| "msat_field k _ = None"

definition msat :: "string \<Rightarrow> json \<Rightarrow> int" where
  "msat k j = (case msat_field k j of None \<Rightarrow> 0 | Some n \<Rightarrow> n)"

definition confirmed_msat :: "json list \<Rightarrow> int" where
  "confirmed_msat outs = sum_list (map (msat ''amount_msat'') (filter is_confirmed outs))"

definition channels_msat :: "json list \<Rightarrow> int" where
  "channels_msat chans = sum_list (map (msat ''our_amount_msat'') chans)"

definition list_field :: "(string \<times> json) list \<Rightarrow> string \<Rightarrow> json list option" where
  \<comment> \<open>a field that holds a list; an absent field counts as the empty list\<close>
  "list_field kvs k =
     (case map_of kvs k of None \<Rightarrow> Some [] | Some (JList xs) \<Rightarrow> Some xs | Some _ \<Rightarrow> None)"

definition field_or :: "(string \<times> json) list \<Rightarrow> string \<Rightarrow> json \<Rightarrow> json" where
  \<comment> \<open>the value of a field of a response, or the default when the field is absent\<close>
  "field_or kvs k d = (case map_of kvs k of None \<Rightarrow> d | Some v \<Rightarrow> v)"

definition failing_reply :: "reply \<Rightarrow> bool" where
  \<comment> \<open>a transport failure, an HTTP error status, or a body that is not JSON\<close>
  "failing_reply r =
     (case r of
        Failed k msg \<Rightarrow> True
      | Reply st err b \<Rightarrow> http_error_status st \<or> (case b of Json j \<Rightarrow> False | Not_json d msg \<Rightarrow> True))"

definition decimal_value :: "string \<Rightarrow> nat \<Rightarrow> nat" where
  \<comment> \<open>the number a string of decimal digits denotes, continuing from \<open>acc\<close>\<close>
  "decimal_value ds acc = foldl (\<lambda>a c. 10 * a + digit_val c) acc ds"




definition numeric_string :: "string \<Rightarrow> bool" where
  \<comment> \<open>a numeric string of LND's wire: decimal digits, at least one, within the
      interpreter's limit\<close>
  "numeric_string ds = (ds \<noteq> [] \<and> list_all is_digit ds \<and> length ds \<le> max_str_digits)"

fun sat_amount :: "json \<Rightarrow> int option" where
  \<comment> \<open>the amount a field writes: a JSON integer, or a numeric string read in base ten\<close>
  "sat_amount (JInt n) = Some n"
| "sat_amount (JStr ds) = (if numeric_string ds then Some (int (decimal_value ds 0)) else None)"
| "sat_amount j = None"

section \<open>Example configuration, clients and backends\<close>

definition nc_bob :: node_config where
  "nc_bob = \<lparr>name = ''bob'', implementation = ''CLN'', rpc_host = ''127.0.0.1'', rpc_port = 0,
     rest_port = Some 8182, macaroon_path = None, cert_path = None,
     rune_path = Some ''/cln/admin.rune'', client_cert_path = None, client_key_path = None,
     ca_cert_path = None, socket_path = None\<rparr>"

definition nc_alice :: node_config where
  "nc_alice = \<lparr>name = ''alice'', implementation = ''LND'', rpc_host = ''localhost'', rpc_port = 10001,
     rest_port = None, macaroon_path = Some ''/lnd/admin.macaroon'', cert_path = None,
     rune_path = None, client_cert_path = None, client_key_path = None,
     ca_cert_path = None, socket_path = None\<rparr>"

definition nc_dave :: node_config where
  "nc_dave = nc_alice\<lparr>name := ''dave'', macaroon_path := Some ''/lnd/dave.macaroon''\<rparr>"

definition sparse_balance_backend :: "request list \<Rightarrow> request \<Rightarrow> reply" where
  "sparse_balance_backend history rq =
     (if url rq = ''https://localhost:8080/v1/balance/blockchain''
      then Reply 200 ''OK'' (Json (JObj [(''confirmed_balance'', JStr ''007'')]))
      else Reply 200 ''OK'' (Json (JObj [])))"

definition no_cert_backend :: "request list \<Rightarrow> request \<Rightarrow> reply" where
  "no_cert_backend history rq =
     Failed Tls_file_not_found ''Could not find the TLS certificate file, invalid path: /cln/client.pem''"

definition nc_erin :: node_config where
  "nc_erin = nc_alice\<lparr>name := ''erin'', macaroon_path := Some ''/lnd/locked.macaroon''\<rparr>"

definition demo_config :: polar_config where
  "demo_config = \<lparr>nodes = [''bob'' \<mapsto> nc_bob, ''alice'' \<mapsto> nc_alice, ''dave'' \<mapsto> nc_dave,
                           ''erin'' \<mapsto> nc_erin],
     polar_home = ''~/.polar'', network_name = ''default''\<rparr>"

definition demo_files :: "string \<Rightarrow> file_state" where
  "demo_files p =
     (if p = ''/cln/admin.rune'' then Content ''rune-1 ''
      else if p = ''/lnd/admin.macaroon'' then Content [CHR 0x02, CHR 0x01, CHR 0xFF]
      else if p = ''/lnd/locked.macaroon''
      then Unreadable (''[Errno 13] Permission denied: '' @ quoted ''/lnd/locked.macaroon'')
      else Missing)"

definition world_with :: "(request list \<Rightarrow> request \<Rightarrow> reply) \<Rightarrow> world" where
  "world_with b = \<lparr>files = demo_files, backend = b, sent = [], stdout = []\<rparr>"

definition cln_bob :: cln_client where
  "cln_bob = \<lparr>cln_node_config = nc_bob, cln_base_url = ''http://127.0.0.1:8182'',
     cln_node_name = ''bob'', session_headers = [(''Rune'', ''rune-1'')], session_cert = None,
     session_verify = Verify_default\<rparr>"

definition funds_outputs :: "json list" where
  "funds_outputs =
     [JObj [(''txid'', JStr ''aa''), (''amount_msat'', JInt 1500), (''status'', JStr ''confirmed'')],
      JObj [(''txid'', JStr ''bb''), (''amount_msat'', JInt 7000), (''status'', JStr ''unconfirmed'')]]"

definition funds_channels :: "json list" where
  "funds_channels = [JObj [(''peer_id'', JStr ''02cc''), (''our_amount_msat'', JInt 2999)]]"

definition funds_fields :: "(string \<times> json) list" where
  "funds_fields = [(''outputs'', JList funds_outputs), (''channels'', JList funds_channels)]"

definition funds_backend :: "request list \<Rightarrow> request \<Rightarrow> reply" where
  "funds_backend history rq = Reply 200 ''OK'' (Json (JObj funds_fields))"

definition lnd_alice :: lnd_client where
  "lnd_alice = \<lparr>lnd_node_config = nc_alice, lnd_node_name = ''alice'',
     lnd_base_url = ''https://localhost:8080'',
     lnd_headers = [(''Grpc-Metadata-macaroon'', ''0201ff'')], lnd_verify = Verify_off\<rparr>"

definition wallet_fields :: "(string \<times> json) list" where
  "wallet_fields = [(''total_balance'', JStr ''600''), (''confirmed_balance'', JStr ''500''),
                    (''unconfirmed_balance'', JStr ''100'')]"

definition channel_fields :: "(string \<times> json) list" where
  "channel_fields = [(''balance'', JStr ''300''), (''pending_open_balance'', JStr ''0'')]"

definition balance_backend :: "request list \<Rightarrow> request \<Rightarrow> reply" where
  "balance_backend history rq =
     (if url rq = ''https://localhost:8080/v1/balance/blockchain''
      then Reply 200 ''OK'' (Json (JObj wallet_fields))
      else Reply 200 ''OK'' (Json (JObj channel_fields)))"

definition port0_config :: polar_config where
  "port0_config = \<lparr>nodes = [''bob'' \<mapsto> nc_bob\<lparr>rest_port := Some 0\<rparr>],
     polar_home = ''~/.polar'', network_name = ''default''\<rparr>"

definition refusing_backend :: "request list \<Rightarrow> request \<Rightarrow> reply" where
  "refusing_backend history rq = Failed Connection_failure ''Connection refused''"

definition ok_backend :: "request list \<Rightarrow> request \<Rightarrow> reply" where
  "ok_backend history rq =
     Reply 200 ''OK'' (Json (JObj [(''amount_sent_msat'', JInt 21000), (''status'', JStr ''complete'')]))"

definition error500_backend :: "request list \<Rightarrow> request \<Rightarrow> reply" where
  "error500_backend history rq =
     Reply 500 (''500 Server Error: Internal Server Error for url: '' @ url rq) (Json (JObj [(''code'', JInt 500)]))"

section \<open>Lemmas on the embedding\<close>

lemma floor_div_1000:
  fixes t :: int
  shows "1000 * (t div 1000) \<le> t \<and> t < 1000 * (t div 1000) + 1000"
proof -
  have a: "t = 1000 * (t div 1000) + t mod 1000" by simp
  have b: "0 \<le> t mod 1000" by simp
  have c: "t mod 1000 < 1000" by simp
  from a b c show ?thesis by linarith
qed

lemma sum_confirmed_outputs_wf:
  "\<forall>out \<in> set outs. is_dict out \<and> (is_confirmed out \<longrightarrow> msat_field ''amount_msat'' out \<noteq> None)
   \<Longrightarrow> sum_confirmed_outputs outs acc = Inr (acc + confirmed_msat outs)"
proof (induction outs arbitrary: acc)
  case Nil
  then show ?case by (simp add: confirmed_msat_def)
next
  case (Cons out outs)
  from Cons.prems obtain kvs where out: "out = JObj kvs" by (cases out) auto
  have rest: "\<And>a. sum_confirmed_outputs outs a = Inr (a + confirmed_msat outs)"
    using Cons by simp
  show ?case
  proof (cases "is_confirmed out")
    case True
    with Cons.prems out obtain n where n: "map_of kvs ''amount_msat'' = Some (JInt n)"
      by (auto split: option.splits json.splits)
    from True out have st: "map_of kvs ''status'' = Some (JStr ''confirmed'')" by simp
    show ?thesis using True
      by (simp add: out n st rest confirmed_msat_def msat_def)
  next
    case False
    then have "(case map_of kvs ''status'' of None \<Rightarrow> JNull | Some v \<Rightarrow> v) \<noteq> JStr ''confirmed''"
      using out by (auto split: option.splits)
    then show ?thesis using False
      by (simp add: out rest confirmed_msat_def)
  qed
qed

lemma sum_channels_wf:
  "\<forall>ch \<in> set chans. msat_field ''our_amount_msat'' ch \<noteq> None
   \<Longrightarrow> sum_channels chans acc = Inr (acc + channels_msat chans)"
proof (induction chans arbitrary: acc)
  case Nil
  then show ?case by (simp add: channels_msat_def)
next
  case (Cons ch chans)
  from Cons.prems obtain kvs n
    where ch: "ch = JObj kvs" and n: "map_of kvs ''our_amount_msat'' = Some (JInt n)"
    by (cases ch) (auto split: option.splits json.splits)
  have rest: "\<And>a. sum_channels chans a = Inr (a + channels_msat chans)"
    using Cons by simp
  show ?case
    by (simp add: ch n rest channels_msat_def msat_def)
qed

lemma balance_of_funds_wf:
  assumes "list_field kvs ''outputs'' = Some outs"
    and "list_field kvs ''channels'' = Some chans"
    and "\<forall>out \<in> set outs. is_dict out \<and> (is_confirmed out \<longrightarrow> msat_field ''amount_msat'' out \<noteq> None)"
    and "\<forall>ch \<in> set chans. msat_field ''our_amount_msat'' ch \<noteq> None"
  shows "balance_of_funds (JObj kvs) = Inr ((confirmed_msat outs + channels_msat chans) div 1000)"
proof -
  have o: "py_iter (case map_of kvs ''outputs'' of None \<Rightarrow> JList [] | Some v \<Rightarrow> v) = Inr outs"
    using assms(1) by (auto simp: list_field_def split: option.splits json.splits)
  have c: "py_iter (case map_of kvs ''channels'' of None \<Rightarrow> JList [] | Some v \<Rightarrow> v) = Inr chans"
    using assms(2) by (auto simp: list_field_def split: option.splits json.splits)
  show ?thesis
    by (simp add: balance_of_funds_def res_bind_def o c sum_confirmed_outputs_wf [OF assms(3)]
        sum_channels_wf [OF assms(4)])
qed

lemma cln_make_request_ok:
  assumes "backend w (sent w) (cln_request c m (case ps of None \<Rightarrow> [] | Some p \<Rightarrow> p))
             = Reply st err (Json j)"
    and "\<not> http_error_status st"
  shows "cln_make_request c m ps w =
           (Inr j, w\<lparr>sent := sent w @ [cln_request c m (case ps of None \<Rightarrow> [] | Some p \<Rightarrow> p)]\<rparr>)"
  using assms by (simp add: cln_make_request_def exchange_def transmit_def)

subsection \<open>Requests and re-raised exceptions\<close>

lemma snd_reraise_bind_pure:
  "snd (reraise cls pre (io_bind m (\<lambda>x. io_pure (g x))) w) = snd (m w)"
  by (simp add: reraise_def io_bind_def io_pure_def split: prod.splits sum.splits)

lemma snd_cln_make_request:
  "snd (cln_make_request c m ps w) =
     w\<lparr>sent := sent w @ [cln_request c m (case ps of None \<Rightarrow> [] | Some p \<Rightarrow> p)]\<rparr>"
  by (simp add: cln_make_request_def exchange_def transmit_def
      split: prod.splits sum.splits reply.splits transport_failure.splits body.splits
        decode_error.splits)

lemma sent_cln_pay_invoice:
  "sent (snd (cln_pay_invoice c payment_request amount_sats w)) =
     sent w @ [cln_request c ''pay'' (pay_params payment_request amount_sats)]"
  by (simp add: cln_pay_invoice_def snd_reraise_bind_pure snd_cln_make_request)

lemma reraise_bind_fail:
  "fst (m w) = Inl e \<Longrightarrow> fst (reraise cls pre (io_bind m f) w) = Inl (cls, pre @ snd e)"
  by (cases "m w") (auto simp: reraise_def io_bind_def)

lemma reraise_pure_fail:
  "reraise cls pre (io_bind (io_pure (Inl e)) f) w = (Inl (cls, pre @ snd e), w)"
  by (simp add: reraise_def io_bind_def io_pure_def)

lemma reraise_class: "fst (reraise cls pre m w) = Inl e \<Longrightarrow> fst e = cls"
  by (cases "m w") (auto simp: reraise_def split: sum.splits)



lemma lnd_make_request_get_ok:
  assumes "backend w (sent w) (lnd_request c ''GET'' endpoint None) = Reply st err (Json j)"
    and "\<not> http_error_status st"
  shows "lnd_make_request c ''GET'' endpoint data w =
           (Inr j, w\<lparr>sent := sent w @ [lnd_request c ''GET'' endpoint None]\<rparr>)"
proof -
  have u: "py_upper ''GET'' = ''GET''" by (simp add: py_upper_def)
  show ?thesis using assms
    by (simp add: lnd_make_request_def u exchange_def transmit_def)
qed


subsection \<open>Hexadecimal and decimal text read back\<close>







lemma nat_less_10_cases:
  "(d::nat) < 10 \<Longrightarrow> d = 0 \<or> d = 1 \<or> d = 2 \<or> d = 3 \<or> d = 4 \<or> d = 5 \<or> d = 6 \<or> d = 7
     \<or> d = 8 \<or> d = 9"
  by arith

lemma digit_char_props:
  assumes "d < 10"
  shows "is_digit (digit_char d) \<and> digit_val (digit_char d) = d"
  using nat_less_10_cases [OF assms]
  by (elim disjE) (simp_all add: is_digit_def digit_val_def digit_char_def)

lemma str_nat_digits: "c \<in> set (str_nat n) \<Longrightarrow> is_digit c"
proof (induction n arbitrary: c rule: str_nat.induct)
  case (1 n)
  show ?case
  proof (cases "n < 10")
    case True
    with "1.prems" show ?thesis
      using digit_char_props [of n] by (simp add: str_nat.simps [of n])
  next
    case False
    have "n mod 10 < 10" by simp
    with False "1.prems" "1.IH" show ?thesis
      using digit_char_props [of "n mod 10"] by (auto simp: str_nat.simps [of n])
  qed
qed

lemma str_nat_not_Nil: "str_nat n \<noteq> []"
  by (simp add: str_nat.simps [of n])

lemma is_digit_plain:
  "is_digit c \<Longrightarrow> \<not> is_int_space c \<and> c \<noteq> CHR ''-'' \<and> c \<noteq> CHR ''+'' \<and> c \<noteq> CHR ''_''"
  by (auto simp: is_digit_def is_int_space_def Let_def)

lemma scan_digits_all_digits:
  "list_all is_digit ds \<Longrightarrow>
   scan_digits ds acc n False = Some (decimal_value ds acc, n + length ds, [])"
  by (induction ds arbitrary: acc n) (simp_all add: decimal_value_def)

lemma decimal_value_str_nat: "decimal_value (str_nat n) 0 = n"
proof (induction n rule: str_nat.induct)
  case (1 n)
  show ?case
  proof (cases "n < 10")
    case True
    then show ?thesis
      using digit_char_props [of n] by (simp add: str_nat.simps [of n] decimal_value_def)
  next
    case False
    have m: "n mod 10 < 10" by simp
    from False "1.IH" have "decimal_value (str_nat (n div 10)) 0 = n div 10" by simp
    with False show ?thesis
      using digit_char_props [OF m] by (simp add: str_nat.simps [of n] decimal_value_def)
  qed
qed

lemma int_of_str_digits:
  assumes "numeric_string ds"
  shows "int_of_str ds = Inr (int (decimal_value ds 0))"
proof -
  from assms obtain c cs where ds: "ds = c # cs" and c: "is_digit c"
    by (cases ds) (auto simp: numeric_string_def)
  from assms have all: "list_all is_digit ds" and len: "length ds \<le> max_str_digits"
    by (simp_all add: numeric_string_def)
  have t: "dropWhile is_int_space ds = ds" using ds c is_digit_plain by simp
  have h: "hd ds \<noteq> CHR ''-''" "hd ds \<noteq> CHR ''+''" "hd ds \<noteq> CHR ''_''"
    using ds c is_digit_plain by auto
  have ne: "ds \<noteq> []" using ds by simp
  have sc: "scan_digits ds 0 0 False = Some (decimal_value ds 0, length ds, [])"
    using scan_digits_all_digits [OF all, of 0 0] by simp
  show ?thesis using len ne
    by (simp add: int_of_str_def t h sc Let_def)
qed

lemma int_of_str_minus_digits:
  assumes "numeric_string ds"
  shows "int_of_str (CHR ''-'' # ds) = Inr (- int (decimal_value ds 0))"
proof -
  from assms obtain c cs where ds: "ds = c # cs" and c: "is_digit c"
    by (cases ds) (auto simp: numeric_string_def)
  from assms have all: "list_all is_digit ds" and len: "length ds \<le> max_str_digits"
    by (simp_all add: numeric_string_def)
  have sp: "\<not> is_int_space CHR ''-''" by (simp add: is_int_space_def)
  have h: "hd ds \<noteq> CHR ''_''" using ds c is_digit_plain by auto
  have ne: "ds \<noteq> []" using ds by simp
  have sc: "scan_digits ds 0 0 False = Some (decimal_value ds 0, length ds, [])"
    using scan_digits_all_digits [OF all, of 0 0] by simp
  show ?thesis using len ne
    by (simp add: int_of_str_def sp h sc Let_def)
qed

lemma py_int_sat_amount: "sat_amount v = Some a \<Longrightarrow> py_int v = Inr a"
  by (cases v) (auto simp: int_of_str_digits split: if_splits)

lemma numeric_string_str_nat:
  "length (str_nat n) \<le> max_str_digits \<Longrightarrow> numeric_string (str_nat n)"
  using str_nat_digits [of _ n] by (simp add: numeric_string_def str_nat_not_Nil list_all_iff)

lemma py_int_decimal:
  assumes "length (str_nat (nat \<bar>i\<bar>)) \<le> max_str_digits"
  shows "py_int (JStr (str_int i)) = Inr i"
proof (cases "i < 0")
  case True
  then have "nat \<bar>i\<bar> = nat (- i)" by simp
  with assms have "numeric_string (str_nat (nat (- i)))" by (simp add: numeric_string_str_nat)
  from int_of_str_minus_digits [OF this] True show ?thesis
    by (simp add: str_int_def decimal_value_str_nat)
next
  case False
  then have "nat \<bar>i\<bar> = nat i" by simp
  with assms have "numeric_string (str_nat (nat i))" by (simp add: numeric_string_str_nat)
  from int_of_str_digits [OF this] False show ?thesis
    by (simp add: str_int_def decimal_value_str_nat)
qed


section \<open>The CLN balance\<close>

text \<open>
  C1. Whenever the backend answers \<^verbatim>\<open>listfunds\<close> with a response of CLN's shape (a
  dictionary whose \<^verbatim>\<open>outputs\<close> are dictionaries, each confirmed one with an integer
  \<^verbatim>\<open>amount_msat\<close>, and whose \<^verbatim>\<open>channels\<close> each have an integer \<^verbatim>\<open>our_amount_msat\<close>),
  \<^verbatim>\<open>CoreLightningClient.get_balance\<close> returns the floor division by 1000 of the sum of
  \<^verbatim>\<open>amount_msat\<close> over exactly the outputs whose status equals "confirmed" plus the sum
  of \<^verbatim>\<open>our_amount_msat\<close> over all channels. Outputs with another status add nothing, and
  the remainder below one satoshi is dropped: the result times 1000 never exceeds the
  millisatoshi total and misses it by less than 1000.
\<close>

theorem cln_get_balance_floor:
  assumes "backend w (sent w) (cln_request c ''listfunds'' []) = Reply st err (Json (JObj kvs))"
    and "\<not> http_error_status st"
    and "list_field kvs ''outputs'' = Some outs"
    and "list_field kvs ''channels'' = Some chans"
    and "\<forall>out \<in> set outs. is_dict out \<and> (is_confirmed out \<longrightarrow> msat_field ''amount_msat'' out \<noteq> None)"
    and "\<forall>ch \<in> set chans. msat_field ''our_amount_msat'' ch \<noteq> None"
  shows "\<exists>bal. fst (cln_get_balance c w) = Inr bal
           \<and> bal = (confirmed_msat outs + channels_msat chans) div 1000
           \<and> 1000 * bal \<le> confirmed_msat outs + channels_msat chans
           \<and> confirmed_msat outs + channels_msat chans < 1000 * bal + 1000"
proof -
  have rq: "cln_make_request c ''listfunds'' None w =
      (Inr (JObj kvs), w\<lparr>sent := sent w @ [cln_request c ''listfunds'' []]\<rparr>)"
    using cln_make_request_ok [of w c "''listfunds''" None st err "JObj kvs"] assms(1,2) by simp
  have "fst (cln_get_balance c w) = Inr ((confirmed_msat outs + channels_msat chans) div 1000)"
    by (simp add: cln_get_balance_def reraise_def io_bind_def io_pure_def rq
        balance_of_funds_wf [OF assms(3-6)])
  with floor_div_1000 [of "confirmed_msat outs + channels_msat chans"] show ?thesis by blast
qed

text \<open>
  A confirmed output of 1500 msat, an unconfirmed one of 7000 msat and a channel with
  2999 msat on our side: 4499 msat, a balance of 4 satoshi.
\<close>

theorem cln_get_balance_floor_witness:
  "fst (cln_get_balance cln_bob (world_with funds_backend)) = Inr 4"
proof -
  have h1: "backend (world_with funds_backend) (sent (world_with funds_backend))
              (cln_request cln_bob ''listfunds'' []) = Reply 200 ''OK'' (Json (JObj funds_fields))"
    by (simp add: world_with_def funds_backend_def)
  have h2: "\<not> http_error_status 200" by (simp add: http_error_status_def)
  have h3: "list_field funds_fields ''outputs'' = Some funds_outputs"
    by (simp add: list_field_def funds_fields_def)
  have h4: "list_field funds_fields ''channels'' = Some funds_channels"
    by (simp add: list_field_def funds_fields_def)
  have h5: "\<forall>out \<in> set funds_outputs.
              is_dict out \<and> (is_confirmed out \<longrightarrow> msat_field ''amount_msat'' out \<noteq> None)"
    by (simp add: funds_outputs_def)
  have h6: "\<forall>ch \<in> set funds_channels. msat_field ''our_amount_msat'' ch \<noteq> None"
    by (simp add: funds_channels_def)
  have v: "(confirmed_msat funds_outputs + channels_msat funds_channels) div 1000 = 4"
    by (simp add: confirmed_msat_def channels_msat_def funds_outputs_def funds_channels_def msat_def)
  from cln_get_balance_floor [OF h1 h2 h3 h4 h5 h6] v show ?thesis by auto
qed

section \<open>The LND balance\<close>

text \<open>
  C2. When the backend answers \<^verbatim>\<open>GET /v1/balance/blockchain\<close> and then
  \<^verbatim>\<open>GET /v1/balance/channels\<close> with dictionaries, \<^verbatim>\<open>LNDClient.get_balance\<close> returns
  the sum of the \<^verbatim>\<open>confirmed_balance\<close> field of the first and the \<^verbatim>\<open>balance\<close> field of
  the second, and issues exactly these two requests. Each field counts as the number it
  writes: a JSON integer, or a numeric string read in base ten, the form LND sends; an
  absent field counts as 0. No other field of either response enters the result, so
  unconfirmed on-chain funds are left out.
\<close>

theorem lnd_get_balance_sum:
  assumes "backend w (sent w) (lnd_request c ''GET'' ''/v1/balance/blockchain'' None)
             = Reply st1 err1 (Json (JObj wallet))"
    and "\<not> http_error_status st1"
    and "sat_amount (field_or wallet ''confirmed_balance'' (JInt 0)) = Some confirmed"
    and "backend w (sent w @ [lnd_request c ''GET'' ''/v1/balance/blockchain'' None])
           (lnd_request c ''GET'' ''/v1/balance/channels'' None)
             = Reply st2 err2 (Json (JObj channel))"
    and "\<not> http_error_status st2"
    and "sat_amount (field_or channel ''balance'' (JInt 0)) = Some in_channels"
  shows "fst (lnd_get_balance c w) = Inr (confirmed + in_channels)
         \<and> sent (snd (lnd_get_balance c w)) =
             sent w @ [lnd_request c ''GET'' ''/v1/balance/blockchain'' None,
                       lnd_request c ''GET'' ''/v1/balance/channels'' None]"
proof -
  let ?r1 = "lnd_request c ''GET'' ''/v1/balance/blockchain'' None"
  let ?r2 = "lnd_request c ''GET'' ''/v1/balance/channels'' None"
  let ?w1 = "w\<lparr>sent := sent w @ [?r1]\<rparr>"
  have s1: "lnd_make_request c ''GET'' ''/v1/balance/blockchain'' None w = (Inr (JObj wallet), ?w1)"
    using lnd_make_request_get_ok [OF assms(1,2)] .
  have b2: "backend ?w1 (sent ?w1) ?r2 = Reply st2 err2 (Json (JObj channel))"
    using assms(4) by simp
  have s2: "lnd_make_request c ''GET'' ''/v1/balance/channels'' None ?w1
              = (Inr (JObj channel), ?w1\<lparr>sent := sent ?w1 @ [?r2]\<rparr>)"
    using lnd_make_request_get_ok [OF b2 assms(5)] .
  have a: "py_int (case map_of wallet ''confirmed_balance'' of None \<Rightarrow> JInt 0 | Some v \<Rightarrow> v)
             = Inr confirmed"
    using py_int_sat_amount [OF assms(3)] by (simp add: field_or_def)
  have b: "py_int (case map_of channel ''balance'' of None \<Rightarrow> JInt 0 | Some v \<Rightarrow> v)
             = Inr in_channels"
    using py_int_sat_amount [OF assms(6)] by (simp add: field_or_def)
  show ?thesis
    by (simp add: lnd_get_balance_def reraise_def io_bind_def io_pure_def res_bind_def s1 s2 a b)
qed

text \<open>
  A wallet with 500 confirmed and 100 unconfirmed satoshi and 300 satoshi in channels,
  as the numeric strings LND sends: a balance of 800. And a wallet whose confirmed
  balance is written \<^verbatim>\<open>007\<close>, with a channel response that has no \<^verbatim>\<open>balance\<close>: 7.
\<close>

theorem lnd_get_balance_sum_witness:
  "fst (lnd_get_balance lnd_alice (world_with balance_backend)) = Inr 800
   \<and> fst (lnd_get_balance lnd_alice (world_with sparse_balance_backend)) = Inr 7"
proof -
  let ?w = "world_with balance_backend"
  let ?v = "world_with sparse_balance_backend"
  have h2: "\<not> http_error_status 200" by (simp add: http_error_status_def)
  have h1: "backend ?w (sent ?w) (lnd_request lnd_alice ''GET'' ''/v1/balance/blockchain'' None)
              = Reply 200 ''OK'' (Json (JObj wallet_fields))"
    by (simp add: world_with_def balance_backend_def lnd_request_def lnd_alice_def)
  have h3: "sat_amount (field_or wallet_fields ''confirmed_balance'' (JInt 0)) = Some 500"
    by (simp add: field_or_def wallet_fields_def numeric_string_def is_digit_def
        max_str_digits_def decimal_value_def digit_val_def)
  have h4: "backend ?w (sent ?w @ [lnd_request lnd_alice ''GET'' ''/v1/balance/blockchain'' None])
              (lnd_request lnd_alice ''GET'' ''/v1/balance/channels'' None)
              = Reply 200 ''OK'' (Json (JObj channel_fields))"
    by (simp add: world_with_def balance_backend_def lnd_request_def lnd_alice_def)
  have h6: "sat_amount (field_or channel_fields ''balance'' (JInt 0)) = Some 300"
    by (simp add: field_or_def channel_fields_def numeric_string_def is_digit_def
        max_str_digits_def decimal_value_def digit_val_def)
  have g1: "backend ?v (sent ?v) (lnd_request lnd_alice ''GET'' ''/v1/balance/blockchain'' None)
              = Reply 200 ''OK'' (Json (JObj [(''confirmed_balance'', JStr ''007'')]))"
    by (simp add: world_with_def sparse_balance_backend_def lnd_request_def lnd_alice_def)
  have g3: "sat_amount (field_or [(''confirmed_balance'', JStr ''007'')] ''confirmed_balance'' (JInt 0))
              = Some 7"
    by (simp add: field_or_def numeric_string_def is_digit_def
        max_str_digits_def decimal_value_def digit_val_def)
  have g4: "backend ?v (sent ?v @ [lnd_request lnd_alice ''GET'' ''/v1/balance/blockchain'' None])
              (lnd_request lnd_alice ''GET'' ''/v1/balance/channels'' None)
              = Reply 200 ''OK'' (Json (JObj []))"
    by (simp add: world_with_def sparse_balance_backend_def lnd_request_def lnd_alice_def)
  have g6: "sat_amount (field_or [] ''balance'' (JInt 0)) = Some 0"
    by (simp add: field_or_def)
  from lnd_get_balance_sum [OF h1 h2 h3 h4 h2 h6] lnd_get_balance_sum [OF g1 h2 g3 g4 h2 g6]
  show ?thesis by simp
qed

section \<open>Units of the amounts CLN is sent and returns\<close>

lemma sent_cln_create_invoice:
  "sent (snd (cln_create_invoice c a label description w)) =
     sent w @ [cln_request c ''invoice''
                 [(''amount_msat'', PInt (a * 1000)), (''label'', PStr label),
                  (''description'', PStr (case description of None \<Rightarrow> label
                                           | Some d \<Rightarrow> if d = [] then label else d))]]"
  by (simp add: cln_create_invoice_def Let_def snd_reraise_bind_pure snd_cln_make_request)

lemma sent_cln_get_route:
  "sent (snd (cln_get_route c destination a w)) =
     sent w @ [cln_request c ''getroute''
                 [(''id'', PStr destination), (''amount_msat'', PInt (a * 1000)),
                  (''riskfactor'', PFloat ''1.0'')]]"
  by (simp add: cln_get_route_def Let_def snd_reraise_bind_pure snd_cln_make_request)

lemma sent_cln_open_channel:
  "sent (snd (cln_open_channel c node_id a push w)) =
     sent w @ [cln_request c ''fundchannel'' (open_channel_params node_id a push)]"
  by (simp add: cln_open_channel_def snd_reraise_bind_pure snd_cln_make_request)

lemma cln_pay_invoice_result:
  assumes "cln_make_request c ''pay'' (Some (pay_params payment_request override)) w = (Inr (JObj kvs), w')"
  shows "\<exists>r. fst (cln_pay_invoice c payment_request override w) = Inr r
           \<and> map_of r ''amount_sent_msat'' = Some (field_or kvs ''amount_sent_msat'' JNull)"
  using assms
  by (simp add: cln_pay_invoice_def reraise_def io_bind_def io_pure_def res_bind_def field_or_def)

text \<open>
  C3 (as amended). \<^verbatim>\<open>create_invoice\<close> and \<^verbatim>\<open>get_route\<close> send the caller's satoshi
  amount times 1000 as \<^verbatim>\<open>amount_msat\<close>; \<^verbatim>\<open>pay_invoice\<close> does so for an override that
  is present and not 0, and sends no amount otherwise. \<^verbatim>\<open>open_channel\<close> sends the
  funding amount unchanged, in satoshi, as \<^verbatim>\<open>amount\<close> (it has no \<^verbatim>\<open>amount_msat\<close>),
  and a positive push amount times 1000 as \<^verbatim>\<open>push_msat\<close>. On the way back,
  \<^verbatim>\<open>get_balance\<close> floor-divides the millisatoshi total of a response of CLN's shape by
  1000, and \<^verbatim>\<open>pay_invoice\<close> returns \<^verbatim>\<open>amount_sent_msat\<close> as the backend sent it, in
  millisatoshi.
\<close>

theorem cln_amount_units:
  "(\<exists>ps. sent (snd (cln_create_invoice c a label description w)) = sent w @ [cln_request c ''invoice'' ps]
         \<and> map_of ps ''amount_msat'' = Some (PInt (a * 1000)))
   \<and> (\<exists>ps. sent (snd (cln_get_route c destination a w)) = sent w @ [cln_request c ''getroute'' ps]
         \<and> map_of ps ''amount_msat'' = Some (PInt (a * 1000)))
   \<and> (\<exists>ps. sent (snd (cln_pay_invoice c payment_request override w)) = sent w @ [cln_request c ''pay'' ps]
         \<and> map_of ps ''amount_msat'' =
             (case override of None \<Rightarrow> None
              | Some x \<Rightarrow> if x = 0 then None else Some (PInt (x * 1000))))
   \<and> (\<exists>ps. sent (snd (cln_open_channel c node_id a push w)) = sent w @ [cln_request c ''fundchannel'' ps]
         \<and> map_of ps ''amount'' = Some (PInt a)
         \<and> map_of ps ''amount_msat'' = None
         \<and> map_of ps ''push_msat'' = (if 0 < push then Some (PInt (push * 1000)) else None))
   \<and> (\<forall>kvs outs chans.
         list_field kvs ''outputs'' = Some outs \<and> list_field kvs ''channels'' = Some chans
         \<and> (\<forall>out \<in> set outs. is_dict out \<and> (is_confirmed out \<longrightarrow> msat_field ''amount_msat'' out \<noteq> None))
         \<and> (\<forall>ch \<in> set chans. msat_field ''our_amount_msat'' ch \<noteq> None)
         \<longrightarrow> balance_of_funds (JObj kvs) = Inr ((confirmed_msat outs + channels_msat chans) div 1000))
   \<and> (\<forall>kvs w'. cln_make_request c ''pay'' (Some (pay_params payment_request override)) w = (Inr (JObj kvs), w')
         \<longrightarrow> (\<exists>r. fst (cln_pay_invoice c payment_request override w) = Inr r
                 \<and> map_of r ''amount_sent_msat'' = Some (field_or kvs ''amount_sent_msat'' JNull)))"
proof (intro conjI)
  show "\<exists>ps. sent (snd (cln_create_invoice c a label description w)) = sent w @ [cln_request c ''invoice'' ps]
         \<and> map_of ps ''amount_msat'' = Some (PInt (a * 1000))"
    unfolding sent_cln_create_invoice by (intro exI conjI, rule refl) simp
  show "\<exists>ps. sent (snd (cln_get_route c destination a w)) = sent w @ [cln_request c ''getroute'' ps]
         \<and> map_of ps ''amount_msat'' = Some (PInt (a * 1000))"
    unfolding sent_cln_get_route by (intro exI conjI, rule refl) simp
  show "\<exists>ps. sent (snd (cln_pay_invoice c payment_request override w)) = sent w @ [cln_request c ''pay'' ps]
         \<and> map_of ps ''amount_msat'' =
             (case override of None \<Rightarrow> None
              | Some x \<Rightarrow> if x = 0 then None else Some (PInt (x * 1000)))"
    unfolding sent_cln_pay_invoice
    by (intro exI conjI, rule refl) (simp add: pay_params_def split: option.splits)
  show "\<exists>ps. sent (snd (cln_open_channel c node_id a push w)) = sent w @ [cln_request c ''fundchannel'' ps]
         \<and> map_of ps ''amount'' = Some (PInt a)
         \<and> map_of ps ''amount_msat'' = None
         \<and> map_of ps ''push_msat'' = (if 0 < push then Some (PInt (push * 1000)) else None)"
    unfolding sent_cln_open_channel
    by (intro exI conjI, rule refl) (simp_all add: open_channel_params_def)
  show "\<forall>kvs outs chans.
         list_field kvs ''outputs'' = Some outs \<and> list_field kvs ''channels'' = Some chans
         \<and> (\<forall>out \<in> set outs. is_dict out \<and> (is_confirmed out \<longrightarrow> msat_field ''amount_msat'' out \<noteq> None))
         \<and> (\<forall>ch \<in> set chans. msat_field ''our_amount_msat'' ch \<noteq> None)
         \<longrightarrow> balance_of_funds (JObj kvs) = Inr ((confirmed_msat outs + channels_msat chans) div 1000)"
    using balance_of_funds_wf by blast
  show "\<forall>kvs w'. cln_make_request c ''pay'' (Some (pay_params payment_request override)) w = (Inr (JObj kvs), w')
         \<longrightarrow> (\<exists>r. fst (cln_pay_invoice c payment_request override w) = Inr r
                 \<and> map_of r ''amount_sent_msat'' = Some (field_or kvs ''amount_sent_msat'' JNull))"
    using cln_pay_invoice_result by blast
qed

text \<open>
  C3 as stated fails for \<^verbatim>\<open>open_channel\<close>: a funding amount of 50000 satoshi is sent
  as 50000, not as 50000000.
\<close>

theorem cln_open_channel_satoshi_counterexample:
  "sent (snd (cln_open_channel cln_bob ''02cc'' 50000 0 (world_with ok_backend))) =
     [cln_request cln_bob ''fundchannel'' [(''id'', PStr ''02cc''), (''amount'', PInt 50000)]]
   \<and> PInt 50000 \<noteq> PInt (50000 * 1000)"
  by (simp add: sent_cln_open_channel open_channel_params_def world_with_def)


text \<open>
  Five satoshi invoiced and routed, an override of 21, a channel of 5 with a push of 10,
  the funds of the balance example, and a payment of 21000 msat reported back.
\<close>

theorem cln_amount_units_witness:
  "(\<exists>ps. sent (snd (cln_create_invoice cln_bob 5 ''inv-1'' None (world_with ok_backend)))
           = [cln_request cln_bob ''invoice'' ps]
         \<and> map_of ps ''amount_msat'' = Some (PInt 5000))
   \<and> (\<exists>ps. sent (snd (cln_get_route cln_bob ''02cc'' 5 (world_with ok_backend)))
           = [cln_request cln_bob ''getroute'' ps]
         \<and> map_of ps ''amount_msat'' = Some (PInt 5000))
   \<and> (\<exists>ps. sent (snd (cln_pay_invoice cln_bob ''lnbcrt1'' (Some 21) (world_with ok_backend)))
           = [cln_request cln_bob ''pay'' ps]
         \<and> map_of ps ''amount_msat'' = Some (PInt 21000))
   \<and> (\<exists>ps. sent (snd (cln_open_channel cln_bob ''02cc'' 5 10 (world_with ok_backend)))
           = [cln_request cln_bob ''fundchannel'' ps]
         \<and> map_of ps ''amount'' = Some (PInt 5)
         \<and> map_of ps ''push_msat'' = Some (PInt 10000))
   \<and> balance_of_funds (JObj funds_fields) = Inr 4
   \<and> (\<exists>r. fst (cln_pay_invoice cln_bob ''lnbcrt1'' (Some 21) (world_with ok_backend)) = Inr r
         \<and> map_of r ''amount_sent_msat'' = Some (JInt 21000))"
proof -
  let ?w = "world_with ok_backend"
  note t = cln_amount_units [of cln_bob 5 "''inv-1''" None ?w "''02cc''" "''lnbcrt1''" "Some 21"
      "''02cc''" 10]
  note t1 = t [THEN conjunct1]
  note t2 = t [THEN conjunct2, THEN conjunct1]
  note t3 = t [THEN conjunct2, THEN conjunct2, THEN conjunct1]
  note t4 = t [THEN conjunct2, THEN conjunct2, THEN conjunct2, THEN conjunct1]
  note t5 = t [THEN conjunct2, THEN conjunct2, THEN conjunct2, THEN conjunct2, THEN conjunct1]
  note t6 = t [THEN conjunct2, THEN conjunct2, THEN conjunct2, THEN conjunct2, THEN conjunct2]
  have s: "sent ?w = []" by (simp add: world_with_def)
  have h3: "list_field funds_fields ''outputs'' = Some funds_outputs"
    by (simp add: list_field_def funds_fields_def)
  have h4: "list_field funds_fields ''channels'' = Some funds_channels"
    by (simp add: list_field_def funds_fields_def)
  have h5: "\<forall>out \<in> set funds_outputs.
              is_dict out \<and> (is_confirmed out \<longrightarrow> msat_field ''amount_msat'' out \<noteq> None)"
    by (simp add: funds_outputs_def)
  have h6: "\<forall>ch \<in> set funds_channels. msat_field ''our_amount_msat'' ch \<noteq> None"
    by (simp add: funds_channels_def)
  have v: "(confirmed_msat funds_outputs + channels_msat funds_channels) div 1000 = 4"
    by (simp add: confirmed_msat_def channels_msat_def funds_outputs_def funds_channels_def msat_def)
  have b: "backend ?w (sent ?w) (cln_request cln_bob ''pay''
             (case Some (pay_params ''lnbcrt1'' (Some 21)) of None \<Rightarrow> [] | Some p \<Rightarrow> p))
           = Reply 200 ''OK'' (Json (JObj [(''amount_sent_msat'', JInt 21000), (''status'', JStr ''complete'')]))"
    by (simp add: world_with_def ok_backend_def)
  have ok: "\<not> http_error_status 200" by (simp add: http_error_status_def)
  note rq = cln_make_request_ok [OF b ok]
  have f: "field_or [(''amount_sent_msat'', JInt 21000), (''status'', JStr ''complete'')]
             ''amount_sent_msat'' JNull = JInt 21000"
    by (simp add: field_or_def)
  from t1 s have 1: "\<exists>ps. sent (snd (cln_create_invoice cln_bob 5 ''inv-1'' None ?w))
           = [cln_request cln_bob ''invoice'' ps]
         \<and> map_of ps ''amount_msat'' = Some (PInt 5000)" by simp
  from t2 s have 2: "\<exists>ps. sent (snd (cln_get_route cln_bob ''02cc'' 5 ?w))
           = [cln_request cln_bob ''getroute'' ps]
         \<and> map_of ps ''amount_msat'' = Some (PInt 5000)" by simp
  from t3 s have 3: "\<exists>ps. sent (snd (cln_pay_invoice cln_bob ''lnbcrt1'' (Some 21) ?w))
           = [cln_request cln_bob ''pay'' ps]
         \<and> map_of ps ''amount_msat'' = Some (PInt 21000)" by simp
  from t4 s have 4: "\<exists>ps. sent (snd (cln_open_channel cln_bob ''02cc'' 5 10 ?w))
           = [cln_request cln_bob ''fundchannel'' ps]
         \<and> map_of ps ''amount'' = Some (PInt 5)
         \<and> map_of ps ''push_msat'' = Some (PInt 10000)" by auto
  from t5 [rule_format, of funds_fields funds_outputs funds_channels] h3 h4 h5 h6 v
  have 5: "balance_of_funds (JObj funds_fields) = Inr 4" by simp
  from t6 [rule_format, OF rq] f have 6: "\<exists>r. fst (cln_pay_invoice cln_bob ''lnbcrt1'' (Some 21) ?w) = Inr r
         \<and> map_of r ''amount_sent_msat'' = Some (JInt 21000)" by simp
  from 1 2 3 4 5 6 show ?thesis by blast
qed

section \<open>Failures of CLN operations\<close>

lemma cln_make_request_fails:
  assumes "failing_reply (backend w (sent w) (cln_request c m (case ps of None \<Rightarrow> [] | Some p \<Rightarrow> p)))"
  shows "\<exists>e. fst (cln_make_request c m ps w) = Inl e"
  using assms
  by (auto simp: failing_reply_def cln_make_request_def exchange_def transmit_def
      split: reply.splits transport_failure.splits body.splits decode_error.splits)

lemma cln_operation_fails:
  assumes "failing_reply (backend w (sent w)
             (cln_request c m (case params of None \<Rightarrow> [] | Some p \<Rightarrow> p)))"
  shows "\<exists>inner. fst (reraise cls (a @ q @ s) (io_bind (cln_make_request c m params) f) w)
                    = Inl (cls, a @ q @ s @ inner)"
proof -
  from assms obtain e where "fst (cln_make_request c m params w) = Inl e"
    using cln_make_request_fails by blast
  then have "fst (reraise cls (a @ q @ s) (io_bind (cln_make_request c m params) f) w)
               = Inl (cls, (a @ q @ s) @ snd e)"
    by (rule reraise_bind_fail)
  then show ?thesis by simp
qed

lemma cln_make_request_transport:
  assumes "backend w (sent w) (cln_request c m ps) = Failed k msg" and "k \<noteq> Tls_file_not_found"
  shows "fst (cln_make_request c m (Some ps) w) =
        Inl (ConnectionError, ''Failed to connect to CLN node '' @ quoted (cln_node_name c) @ '': '' @ msg)"
  using assms
  by (simp add: cln_make_request_def exchange_def transmit_def is_request_exception_def
      split: transport_failure.splits)

lemma cln_make_request_tls_file:
  assumes "backend w (sent w) (cln_request c m ps) = Failed Tls_file_not_found msg"
  shows "fst (cln_make_request c m (Some ps) w) = Inl (OSError, msg)"
  using assms
  by (simp add: cln_make_request_def exchange_def transmit_def is_request_exception_def)

text \<open>
  C4 (as amended). In \<^verbatim>\<open>CoreLightningClient._make_request\<close> a failure the library
  reports as a \<^verbatim>\<open>RequestException\<close> (DNS, refused connection, TLS handshake, timeout) is
  raised as \<^verbatim>\<open>ConnectionError\<close> with a message naming the node, and the \<^verbatim>\<open>OSError\<close> the
  library raises for a certificate or key file that is not found leaves the method as it
  is. Every operation catches every failure of the request it issues (any of these, an
  HTTP status from 400 to 599, a body that is not JSON) and raises one exception in its
  place, whose class is fixed by the operation (\<^verbatim>\<open>ConnectionError\<close> for \<^verbatim>\<open>get_info\<close>,
  \<^verbatim>\<open>get_balance\<close> and the four listing calls, \<^verbatim>\<open>RuntimeError\<close> for the other seven) and
  whose message begins by naming the operation and the node. The class therefore tells
  the operation, not the kind of failure.
\<close>

theorem cln_failures_reraised:
  "(\<forall>ps k msg. backend w (sent w) (cln_request c m ps) = Failed k msg \<and> k \<noteq> Tls_file_not_found \<longrightarrow>
      fst (cln_make_request c m (Some ps) w) =
        Inl (ConnectionError, ''Failed to connect to CLN node '' @ quoted (cln_node_name c) @ '': '' @ msg))
   \<and> (\<forall>ps msg. backend w (sent w) (cln_request c m ps) = Failed Tls_file_not_found msg \<longrightarrow>
      fst (cln_make_request c m (Some ps) w) = Inl (OSError, msg))
   \<and> (failing_reply (backend w (sent w) (cln_request c ''getinfo''
            [])) \<longrightarrow>
      (\<exists>inner. fst (cln_get_info c w) =
         Inl (ConnectionError, ''Failed to get info from CLN node '' @ quoted (cln_node_name c) @ '': '' @ inner)))
   \<and> (failing_reply (backend w (sent w) (cln_request c ''listfunds''
            [])) \<longrightarrow>
      (\<exists>inner. fst (cln_get_balance c w) =
         Inl (ConnectionError, ''Failed to get balance from CLN node '' @ quoted (cln_node_name c) @ '': '' @ inner)))
   \<and> (failing_reply (backend w (sent w) (cln_request c ''listchannels''
            [])) \<longrightarrow>
      (\<exists>inner. fst (cln_list_channels c w) =
         Inl (ConnectionError, ''Failed to list channels from CLN node '' @ quoted (cln_node_name c) @ '': '' @ inner)))
   \<and> (failing_reply (backend w (sent w) (cln_request c ''listpeers''
            [])) \<longrightarrow>
      (\<exists>inner. fst (cln_list_peers c w) =
         Inl (ConnectionError, ''Failed to list peers from CLN node '' @ quoted (cln_node_name c) @ '': '' @ inner)))
   \<and> (failing_reply (backend w (sent w) (cln_request c ''listinvoices''
            [])) \<longrightarrow>
      (\<exists>inner. fst (cln_list_invoices c w) =
         Inl (ConnectionError, ''Failed to list invoices from CLN node '' @ quoted (cln_node_name c) @ '': '' @ inner)))
   \<and> (failing_reply (backend w (sent w) (cln_request c ''listpays''
            [])) \<longrightarrow>
      (\<exists>inner. fst (cln_list_payments c w) =
         Inl (ConnectionError, ''Failed to list payments from CLN node '' @ quoted (cln_node_name c) @ '': '' @ inner)))
   \<and> (failing_reply (backend w (sent w) (cln_request c ''invoice''
            [(''amount_msat'', PInt (amount * 1000)), (''label'', PStr label),
               (''description'', PStr (case description of None \<Rightarrow> label
                                        | Some d \<Rightarrow> if d = [] then label else d))])) \<longrightarrow>
      (\<exists>inner. fst (cln_create_invoice c amount label description w) =
         Inl (RuntimeError, ''Failed to create invoice on CLN node '' @ quoted (cln_node_name c) @ '': '' @ inner)))
   \<and> (failing_reply (backend w (sent w) (cln_request c ''pay''
            (pay_params payment_request override))) \<longrightarrow>
      (\<exists>inner. fst (cln_pay_invoice c payment_request override w) =
         Inl (RuntimeError, ''Failed to pay invoice on CLN node '' @ quoted (cln_node_name c) @ '': '' @ inner)))
   \<and> (failing_reply (backend w (sent w) (cln_request c ''connect''
            [(''id'', PStr (peer_address node_id host port))])) \<longrightarrow>
      (\<exists>inner. fst (cln_connect_peer c node_id host port w) =
         Inl (RuntimeError, ''Failed to connect to peer on CLN node '' @ quoted (cln_node_name c) @ '': '' @ inner)))
   \<and> (failing_reply (backend w (sent w) (cln_request c ''fundchannel''
            (open_channel_params node_id amount push))) \<longrightarrow>
      (\<exists>inner. fst (cln_open_channel c node_id amount push w) =
         Inl (RuntimeError, ''Failed to open channel on CLN node '' @ quoted (cln_node_name c) @ '': '' @ inner)))
   \<and> (failing_reply (backend w (sent w) (cln_request c ''close''
            (if force then [(''id'', PStr channel_id), (''unilateraltimeout'', PInt 1)]
               else [(''id'', PStr channel_id)]))) \<longrightarrow>
      (\<exists>inner. fst (cln_close_channel c channel_id force w) =
         Inl (RuntimeError, ''Failed to close channel on CLN node '' @ quoted (cln_node_name c) @ '': '' @ inner)))
   \<and> (failing_reply (backend w (sent w) (cln_request c ''decode''
            [(''string'', PStr payment_request)])) \<longrightarrow>
      (\<exists>inner. fst (cln_decode_invoice c payment_request w) =
         Inl (RuntimeError, ''Failed to decode invoice on CLN node '' @ quoted (cln_node_name c) @ '': '' @ inner)))
   \<and> (failing_reply (backend w (sent w) (cln_request c ''getroute''
            [(''id'', PStr destination), (''amount_msat'', PInt (amount * 1000)),
               (''riskfactor'', PFloat ''1.0'')])) \<longrightarrow>
      (\<exists>inner. fst (cln_get_route c destination amount w) =
         Inl (RuntimeError, ''Failed to get route on CLN node '' @ quoted (cln_node_name c) @ '': '' @ inner)))"
  apply (intro conjI impI allI)
  subgoal premises h
    by (rule cln_make_request_transport [OF h [THEN conjunct1] h [THEN conjunct2]])
  subgoal premises h
    by (rule cln_make_request_tls_file [OF h])
  subgoal premises h
    unfolding cln_get_info_def Let_def by (rule cln_operation_fails) (use h in \<open>simp split: if_splits\<close>)
  subgoal premises h
    unfolding cln_get_balance_def Let_def by (rule cln_operation_fails) (use h in \<open>simp split: if_splits\<close>)
  subgoal premises h
    unfolding cln_list_channels_def Let_def by (rule cln_operation_fails) (use h in \<open>simp split: if_splits\<close>)
  subgoal premises h
    unfolding cln_list_peers_def Let_def by (rule cln_operation_fails) (use h in \<open>simp split: if_splits\<close>)
  subgoal premises h
    unfolding cln_list_invoices_def Let_def by (rule cln_operation_fails) (use h in \<open>simp split: if_splits\<close>)
  subgoal premises h
    unfolding cln_list_payments_def Let_def by (rule cln_operation_fails) (use h in \<open>simp split: if_splits\<close>)
  subgoal premises h
    unfolding cln_create_invoice_def Let_def by (rule cln_operation_fails) (use h in \<open>simp split: if_splits\<close>)
  subgoal premises h
    unfolding cln_pay_invoice_def Let_def by (rule cln_operation_fails) (use h in \<open>simp split: if_splits\<close>)
  subgoal premises h
    unfolding cln_connect_peer_def Let_def by (rule cln_operation_fails) (use h in \<open>simp split: if_splits\<close>)
  subgoal premises h
    unfolding cln_open_channel_def Let_def by (rule cln_operation_fails) (use h in \<open>simp split: if_splits\<close>)
  subgoal premises h
    unfolding cln_close_channel_def Let_def by (rule cln_operation_fails) (use h in \<open>simp split: if_splits\<close>)
  subgoal premises h
    unfolding cln_decode_invoice_def Let_def by (rule cln_operation_fails) (use h in \<open>simp split: if_splits\<close>)
  subgoal premises h
    unfolding cln_get_route_def Let_def by (rule cln_operation_fails) (use h in \<open>simp split: if_splits\<close>)
  done

text \<open>
  C4 as stated fails for a listing call whose backend answers HTTP 500: it surfaces as
  \<^verbatim>\<open>ConnectionError\<close>, the class a refused connection surfaces as.
\<close>

theorem cln_http_500_counterexample:
  "fst (cln_list_channels cln_bob (world_with error500_backend)) =
     Inl (ConnectionError, ''Failed to list channels from CLN node '' @ quoted ''bob''
            @ '': Failed to connect to CLN node '' @ quoted ''bob''
            @ '': 500 Server Error: Internal Server Error for url: http://127.0.0.1:8182/v1/listchannels'')
   \<and> fst (cln_list_channels cln_bob (world_with refusing_backend)) =
     Inl (ConnectionError, ''Failed to list channels from CLN node '' @ quoted ''bob''
            @ '': Failed to connect to CLN node '' @ quoted ''bob'' @ '': Connection refused'')"
  by (simp add: cln_list_channels_def reraise_def io_bind_def io_pure_def cln_make_request_def
      exchange_def transmit_def world_with_def error500_backend_def refusing_backend_def
      http_error_status_def is_request_exception_def cln_request_def cln_bob_def)

text \<open>
  A refused connection and a certificate file that is not found at \<^verbatim>\<open>_make_request\<close>,
  and each of the thirteen operations against a backend that answers every request with
  HTTP 500.
\<close>

theorem cln_failures_reraised_witness:
  "fst (cln_make_request cln_bob ''listchannels'' (Some []) (world_with refusing_backend)) =
     Inl (ConnectionError, ''Failed to connect to CLN node '' @ quoted ''bob'' @ '': Connection refused'')
   \<and> fst (cln_make_request cln_bob ''listchannels'' (Some []) (world_with no_cert_backend)) =
     Inl (OSError, ''Could not find the TLS certificate file, invalid path: /cln/client.pem'')
   \<and> (\<exists>inner. fst (cln_get_info cln_bob (world_with error500_backend)) =
         Inl (ConnectionError, ''Failed to get info from CLN node '' @ quoted ''bob'' @ '': '' @ inner))
   \<and> (\<exists>inner. fst (cln_get_balance cln_bob (world_with error500_backend)) =
         Inl (ConnectionError, ''Failed to get balance from CLN node '' @ quoted ''bob'' @ '': '' @ inner))
   \<and> (\<exists>inner. fst (cln_list_channels cln_bob (world_with error500_backend)) =
         Inl (ConnectionError, ''Failed to list channels from CLN node '' @ quoted ''bob'' @ '': '' @ inner))
   \<and> (\<exists>inner. fst (cln_list_peers cln_bob (world_with error500_backend)) =
         Inl (ConnectionError, ''Failed to list peers from CLN node '' @ quoted ''bob'' @ '': '' @ inner))
   \<and> (\<exists>inner. fst (cln_list_invoices cln_bob (world_with error500_backend)) =
         Inl (ConnectionError, ''Failed to list invoices from CLN node '' @ quoted ''bob'' @ '': '' @ inner))
   \<and> (\<exists>inner. fst (cln_list_payments cln_bob (world_with error500_backend)) =
         Inl (ConnectionError, ''Failed to list payments from CLN node '' @ quoted ''bob'' @ '': '' @ inner))
   \<and> (\<exists>inner. fst (cln_create_invoice cln_bob 5 ''inv-1'' None (world_with error500_backend)) =
         Inl (RuntimeError, ''Failed to create invoice on CLN node '' @ quoted ''bob'' @ '': '' @ inner))
   \<and> (\<exists>inner. fst (cln_pay_invoice cln_bob ''lnbcrt1'' (Some 21) (world_with error500_backend)) =
         Inl (RuntimeError, ''Failed to pay invoice on CLN node '' @ quoted ''bob'' @ '': '' @ inner))
   \<and> (\<exists>inner. fst (cln_connect_peer cln_bob ''02cc'' None None (world_with error500_backend)) =
         Inl (RuntimeError, ''Failed to connect to peer on CLN node '' @ quoted ''bob'' @ '': '' @ inner))
   \<and> (\<exists>inner. fst (cln_open_channel cln_bob ''02cc'' 5 10 (world_with error500_backend)) =
         Inl (RuntimeError, ''Failed to open channel on CLN node '' @ quoted ''bob'' @ '': '' @ inner))
   \<and> (\<exists>inner. fst (cln_close_channel cln_bob ''chan-1'' False (world_with error500_backend)) =
         Inl (RuntimeError, ''Failed to close channel on CLN node '' @ quoted ''bob'' @ '': '' @ inner))
   \<and> (\<exists>inner. fst (cln_decode_invoice cln_bob ''lnbcrt1'' (world_with error500_backend)) =
         Inl (RuntimeError, ''Failed to decode invoice on CLN node '' @ quoted ''bob'' @ '': '' @ inner))
   \<and> (\<exists>inner. fst (cln_get_route cln_bob ''02cc'' 5 (world_with error500_backend)) =
         Inl (RuntimeError, ''Failed to get route on CLN node '' @ quoted ''bob'' @ '': '' @ inner))"
proof -
  let ?w = "world_with error500_backend"
  let ?no = "world_with refusing_backend"
  let ?nc = "world_with no_cert_backend"
  note t = cln_failures_reraised [where w = ?w and c = cln_bob and amount = 5
      and label = "''inv-1''" and description = None and payment_request = "''lnbcrt1''"
      and override = "Some 21" and node_id = "''02cc''" and host = None and port = None
      and push = 10 and channel_id = "''chan-1''" and force = False and destination = "''02cc''"]
  have F: "\<And>rq. failing_reply (backend ?w (sent ?w) rq)"
    by (simp add: failing_reply_def world_with_def error500_backend_def http_error_status_def)
  have N: "backend ?no (sent ?no) (cln_request cln_bob ''listchannels'' [])
             = Failed Connection_failure ''Connection refused''
           \<and> Connection_failure \<noteq> Tls_file_not_found"
    by (simp add: world_with_def refusing_backend_def)
  have C: "backend ?nc (sent ?nc) (cln_request cln_bob ''listchannels'' [])
             = Failed Tls_file_not_found
                 ''Could not find the TLS certificate file, invalid path: /cln/client.pem''"
    by (simp add: world_with_def no_cert_backend_def)
  from cln_failures_reraised [where w = ?no and c = cln_bob and m = "''listchannels''",
      THEN conjunct1, rule_format, OF N]
  have r0: "fst (cln_make_request cln_bob ''listchannels'' (Some []) ?no) =
     Inl (ConnectionError, ''Failed to connect to CLN node '' @ quoted ''bob'' @ '': Connection refused'')"
    by (simp add: cln_bob_def)
  from cln_failures_reraised [where w = ?nc and c = cln_bob and m = "''listchannels''",
      THEN conjunct2, THEN conjunct1, rule_format, OF C]
  have r00: "fst (cln_make_request cln_bob ''listchannels'' (Some []) ?nc) =
     Inl (OSError, ''Could not find the TLS certificate file, invalid path: /cln/client.pem'')"
    by simp
  from t [THEN conjunct2, THEN conjunct2, THEN conjunct1] F
  have r1: "(\<exists>inner. fst (cln_get_info cln_bob ?w) =
         Inl (ConnectionError, ''Failed to get info from CLN node '' @ quoted ''bob'' @ '': '' @ inner))"
    by (simp add: cln_bob_def)
  from t [THEN conjunct2, THEN conjunct2, THEN conjunct2, THEN conjunct1] F
  have r2: "(\<exists>inner. fst (cln_get_balance cln_bob ?w) =
         Inl (ConnectionError, ''Failed to get balance from CLN node '' @ quoted ''bob'' @ '': '' @ inner))"
    by (simp add: cln_bob_def)
  from t [THEN conjunct2, THEN conjunct2, THEN conjunct2, THEN conjunct2, THEN conjunct1] F
  have r3: "(\<exists>inner. fst (cln_list_channels cln_bob ?w) =
         Inl (ConnectionError, ''Failed to list channels from CLN node '' @ quoted ''bob'' @ '': '' @ inner))"
    by (simp add: cln_bob_def)
  from t [THEN conjunct2, THEN conjunct2, THEN conjunct2, THEN conjunct2, THEN conjunct2, THEN conjunct1] F
  have r4: "(\<exists>inner. fst (cln_list_peers cln_bob ?w) =
         Inl (ConnectionError, ''Failed to list peers from CLN node '' @ quoted ''bob'' @ '': '' @ inner))"
    by (simp add: cln_bob_def)
  from t [THEN conjunct2, THEN conjunct2, THEN conjunct2, THEN conjunct2, THEN conjunct2, THEN conjunct2, THEN conjunct1] F
  have r5: "(\<exists>inner. fst (cln_list_invoices cln_bob ?w) =
         Inl (ConnectionError, ''Failed to list invoices from CLN node '' @ quoted ''bob'' @ '': '' @ inner))"
    by (simp add: cln_bob_def)
  from t [THEN conjunct2, THEN conjunct2, THEN conjunct2, THEN conjunct2, THEN conjunct2, THEN conjunct2, THEN conjunct2, THEN conjunct1] F
  have r6: "(\<exists>inner. fst (cln_list_payments cln_bob ?w) =
         Inl (ConnectionError, ''Failed to list payments from CLN node '' @ quoted ''bob'' @ '': '' @ inner))"
    by (simp add: cln_bob_def)
  from t [THEN conjunct2, THEN conjunct2, THEN conjunct2, THEN conjunct2, THEN conjunct2, THEN conjunct2, THEN conjunct2, THEN conjunct2, THEN conjunct1] F
  have r7: "(\<exists>inner. fst (cln_create_invoice cln_bob 5 ''inv-1'' None ?w) =
         Inl (RuntimeError, ''Failed to create invoice on CLN node '' @ quoted ''bob'' @ '': '' @ inner))"
    by (simp add: cln_bob_def)
  from t [THEN conjunct2, THEN conjunct2, THEN conjunct2, THEN conjunct2, THEN conjunct2, THEN conjunct2, THEN conjunct2, THEN conjunct2, THEN conjunct2, THEN conjunct1] F
  have r8: "(\<exists>inner. fst (cln_pay_invoice cln_bob ''lnbcrt1'' (Some 21) ?w) =
         Inl (RuntimeError, ''Failed to pay invoice on CLN node '' @ quoted ''bob'' @ '': '' @ inner))"
    by (simp add: cln_bob_def)
  from t [THEN conjunct2, THEN conjunct2, THEN conjunct2, THEN conjunct2, THEN conjunct2, THEN conjunct2, THEN conjunct2, THEN conjunct2, THEN conjunct2, THEN conjunct2, THEN conjunct1] F
  have r9: "(\<exists>inner. fst (cln_connect_peer cln_bob ''02cc'' None None ?w) =
         Inl (RuntimeError, ''Failed to connect to peer on CLN node '' @ quoted ''bob'' @ '': '' @ inner))"
    by (simp add: cln_bob_def)
  from t [THEN conjunct2, THEN conjunct2, THEN conjunct2, THEN conjunct2, THEN conjunct2, THEN conjunct2, THEN conjunct2, THEN conjunct2, THEN conjunct2, THEN conjunct2, THEN conjunct2, THEN conjunct1] F
  have r10: "(\<exists>inner. fst (cln_open_channel cln_bob ''02cc'' 5 10 ?w) =
         Inl (RuntimeError, ''Failed to open channel on CLN node '' @ quoted ''bob'' @ '': '' @ inner))"
    by (simp add: cln_bob_def)
  from t [THEN conjunct2, THEN conjunct2, THEN conjunct2, THEN conjunct2, THEN conjunct2, THEN conjunct2, THEN conjunct2, THEN conjunct2, THEN conjunct2, THEN conjunct2, THEN conjunct2, THEN conjunct2, THEN conjunct1] F
  have r11: "(\<exists>inner. fst (cln_close_channel cln_bob ''chan-1'' False ?w) =
         Inl (RuntimeError, ''Failed to close channel on CLN node '' @ quoted ''bob'' @ '': '' @ inner))"
    by (simp add: cln_bob_def)
  from t [THEN conjunct2, THEN conjunct2, THEN conjunct2, THEN conjunct2, THEN conjunct2, THEN conjunct2, THEN conjunct2, THEN conjunct2, THEN conjunct2, THEN conjunct2, THEN conjunct2, THEN conjunct2, THEN conjunct2, THEN conjunct1] F
  have r12: "(\<exists>inner. fst (cln_decode_invoice cln_bob ''lnbcrt1'' ?w) =
         Inl (RuntimeError, ''Failed to decode invoice on CLN node '' @ quoted ''bob'' @ '': '' @ inner))"
    by (simp add: cln_bob_def)
  from t [THEN conjunct2, THEN conjunct2, THEN conjunct2, THEN conjunct2, THEN conjunct2, THEN conjunct2, THEN conjunct2, THEN conjunct2, THEN conjunct2, THEN conjunct2, THEN conjunct2, THEN conjunct2, THEN conjunct2, THEN conjunct2] F
  have r13: "(\<exists>inner. fst (cln_get_route cln_bob ''02cc'' 5 ?w) =
         Inl (RuntimeError, ''Failed to get route on CLN node '' @ quoted ''bob'' @ '': '' @ inner))"
    by (simp add: cln_bob_def)
  from r0 r00 r1 r2 r3 r4 r5 r6 r7 r8 r9 r10 r11 r12 r13 show ?thesis by blast
qed

section \<open>Constructing a \<^verbatim>\<open>CoreLightningClient\<close>\<close>

lemma sent_cln_setup_auth: "sent (snd (cln_setup_auth c w)) = sent w"
  by (simp add: cln_setup_auth_def Let_def split: option.splits sum.splits prod.splits)

lemma cln_init_cases:
  "cln_init config node_name w =
     (case nodes config node_name of
        None \<Rightarrow> (Inl (ValueError, ''Node '' @ quoted node_name @ '' not found in configuration''), w)
      | Some nc \<Rightarrow>
          if implementation nc \<noteq> ''CLN''
          then (Inl (ValueError, ''Node '' @ quoted node_name @ '' is not a Core Lightning node''), w)
          else if rest_port nc = None \<or> rest_port nc = Some 0
          then (Inl (ValueError, ''REST port not configured for node '' @ quoted node_name), w)
          else (Inr (fst (cln_setup_auth
                  \<lparr>cln_node_config = nc,
                   cln_base_url = ''http://'' @ rpc_host nc @ '':'' @ str_int (the (rest_port nc)),
                   cln_node_name = node_name, session_headers = [], session_cert = None,
                   session_verify = Verify_default\<rparr> w)),
                snd (cln_setup_auth
                  \<lparr>cln_node_config = nc,
                   cln_base_url = ''http://'' @ rpc_host nc @ '':'' @ str_int (the (rest_port nc)),
                   cln_node_name = node_name, session_headers = [], session_cert = None,
                   session_verify = Verify_default\<rparr> w)))"
  by (simp add: cln_init_def split: option.splits prod.splits)

text \<open>
  C5 (as amended). Constructing a \<^verbatim>\<open>CoreLightningClient\<close> fails if and only if the
  named node is absent from the configuration, its implementation is not "CLN", or its
  REST port is unset or 0 (the source tests the truth value of \<^verbatim>\<open>rest_port\<close>). Every
  such failure is a \<^verbatim>\<open>ValueError\<close>, the configuration error, raised with nothing sent
  and nothing printed; and the constructor issues no request, whether it fails or not.
\<close>

theorem cln_init_configuration_error:
  "((\<exists>e. fst (cln_init config node_name w) = Inl e) \<longleftrightarrow>
      (nodes config node_name = None
       \<or> (\<exists>nc. nodes config node_name = Some nc
             \<and> (implementation nc \<noteq> ''CLN'' \<or> rest_port nc = None \<or> rest_port nc = Some 0))))
   \<and> (\<forall>e. fst (cln_init config node_name w) = Inl e \<longrightarrow>
          fst e = ValueError \<and> snd (cln_init config node_name w) = w)
   \<and> sent (snd (cln_init config node_name w)) = sent w"
  by (auto simp: cln_init_cases sent_cln_setup_auth split: option.splits)

text \<open>
  C5 as stated fails for a CLN node whose REST port is configured as 0: the node is
  present, of kind CLN, and has a REST port, yet construction fails.
\<close>

theorem cln_init_port_zero_counterexample:
  "fst (cln_init port0_config ''bob'' (world_with funds_backend))
     = Inl (ValueError, ''REST port not configured for node '' @ quoted ''bob'')
   \<and> nodes port0_config ''bob'' = Some (nc_bob\<lparr>rest_port := Some 0\<rparr>)
   \<and> implementation (nc_bob\<lparr>rest_port := Some 0\<rparr>) = ''CLN''
   \<and> rest_port (nc_bob\<lparr>rest_port := Some 0\<rparr>) \<noteq> None"
  by (simp add: cln_init_def port0_config_def nc_bob_def)

text \<open>
  An absent node, a node of the other kind, and a CLN node that constructs.
\<close>

theorem cln_init_configuration_error_witness:
  "(\<exists>e. fst (cln_init demo_config ''carol'' (world_with funds_backend)) = Inl e)
   \<and> fst (cln_init demo_config ''alice'' (world_with funds_backend))
       = Inl (ValueError, ''Node '' @ quoted ''alice'' @ '' is not a Core Lightning node'')
   \<and> snd (cln_init demo_config ''alice'' (world_with funds_backend)) = world_with funds_backend
   \<and> fst (cln_init demo_config ''bob'' (world_with funds_backend)) = Inr cln_bob
   \<and> sent (snd (cln_init demo_config ''bob'' (world_with funds_backend))) = []"
proof -
  let ?w = "world_with funds_backend"
  have a: "nodes demo_config ''carol'' = None" by (simp add: demo_config_def)
  have b: "fst (cln_init demo_config ''alice'' ?w)
             = Inl (ValueError, ''Node '' @ quoted ''alice'' @ '' is not a Core Lightning node'')"
    by (simp add: cln_init_def demo_config_def nc_alice_def)
  have c: "fst (cln_init demo_config ''bob'' ?w) = Inr cln_bob"
    by (simp add: cln_init_def demo_config_def nc_bob_def cln_setup_auth_def read_file_def
        world_with_def demo_files_def py_strip_def is_space_def cln_bob_def str_int_def
        str_nat.simps digit_char_def)
  have d: "sent ?w = []" by (simp add: world_with_def)
  from cln_init_configuration_error [of demo_config "''carol''" ?w] a
  have 1: "\<exists>e. fst (cln_init demo_config ''carol'' ?w) = Inl e" by simp
  from cln_init_configuration_error [of demo_config "''alice''" ?w] b
  have 2: "snd (cln_init demo_config ''alice'' ?w) = ?w" by simp
  from cln_init_configuration_error [of demo_config "''bob''" ?w] d
  have 3: "sent (snd (cln_init demo_config ''bob'' ?w)) = []" by simp
  from 1 2 3 b c show ?thesis by simp
qed

section \<open>Closing a channel on LND with a malformed identifier\<close>

lemma py_split_no_sep: "sep \<notin> set s \<Longrightarrow> py_split sep s = [s]"
  by (induction s) auto

text \<open>
  C6 (as amended). For every \<^verbatim>\<open>channel_point\<close> that contains no colon,
  \<^verbatim>\<open>LNDClient.close_channel\<close> fails before any HTTP request is issued: the unpacking of
  \<^verbatim>\<open>channel_point.split(':')\<close> raises, and the operation re-raises it as its
  \<^verbatim>\<open>RuntimeError\<close>, whose message names the node and ends with the text of the
  unpacking error. The world is unchanged: nothing was sent. \<^verbatim>\<open>RuntimeError\<close> is the
  class of every exception the operation raises, whatever the identifier and whatever
  failed.
\<close>

theorem lnd_close_channel_no_colon:
  "(CHR '':'' \<notin> set channel_point \<longrightarrow>
      lnd_close_channel c channel_point force w =
        (Inl (RuntimeError, ''Failed to close channel on LND node '' @ quoted (lnd_node_name c)
                @ '': not enough values to unpack (expected 2, got 1)''), w))
   \<and> (\<forall>e. fst (lnd_close_channel c channel_point force w) = Inl e \<longrightarrow> fst e = RuntimeError)"
proof (intro conjI impI allI)
  assume a: "CHR '':'' \<notin> set channel_point"
  have "unpack_channel_point channel_point =
          Inl (ValueError, ''not enough values to unpack (expected 2, got 1)'')"
    by (simp add: unpack_channel_point_def py_split_no_sep [OF a] str_nat.simps digit_char_def)
  then show "lnd_close_channel c channel_point force w =
        (Inl (RuntimeError, ''Failed to close channel on LND node '' @ quoted (lnd_node_name c)
                @ '': not enough values to unpack (expected 2, got 1)''), w)"
    by (simp add: lnd_close_channel_def reraise_pure_fail)
next
  fix e
  assume "fst (lnd_close_channel c channel_point force w) = Inl e"
  then show "fst e = RuntimeError"
    unfolding lnd_close_channel_def by (rule reraise_class)
qed

text \<open>
  The identifier \<^verbatim>\<open>deadbeef\<close>, which has no colon.
\<close>

theorem lnd_close_channel_no_colon_witness:
  "lnd_close_channel lnd_alice ''deadbeef'' False (world_with funds_backend) =
     (Inl (RuntimeError, ''Failed to close channel on LND node '' @ quoted ''alice''
             @ '': not enough values to unpack (expected 2, got 1)''), world_with funds_backend)"
proof -
  have "CHR '':'' \<notin> set ''deadbeef''" by simp
  with lnd_close_channel_no_colon [where channel_point = "''deadbeef''" and c = lnd_alice
      and force = False and w = "world_with funds_backend"]
  show ?thesis by (simp add: lnd_alice_def)
qed

text \<open>
  C6 as stated asks for an error typed as an input-validation error. The source has no
  validation: the malformed identifier \<^verbatim>\<open>deadbeef\<close> and a refused connection for the
  well-formed \<^verbatim>\<open>deadbeef:0\<close> both surface as \<^verbatim>\<open>RuntimeError\<close>, told apart only by
  the message text.
\<close>

theorem lnd_close_channel_untyped_counterexample:
  "fst (lnd_close_channel lnd_alice ''deadbeef'' False (world_with refusing_backend)) =
     Inl (RuntimeError, ''Failed to close channel on LND node '' @ quoted ''alice''
            @ '': not enough values to unpack (expected 2, got 1)'')
   \<and> fst (lnd_close_channel lnd_alice ''deadbeef:0'' False (world_with refusing_backend)) =
     Inl (RuntimeError, ''Failed to close channel on LND node '' @ quoted ''alice''
            @ '': Failed to connect to LND node '' @ quoted ''alice''
            @ '' at https://localhost:8080/v1/channels/deadbeef/0: Connection refused'')"
  by (simp add: lnd_close_channel_def unpack_channel_point_def reraise_def io_bind_def io_pure_def
      lnd_make_request_def py_upper_def exchange_def transmit_def world_with_def refusing_backend_def
      lnd_rethrow_def lnd_alice_def lnd_request_def str_nat.simps digit_char_def Let_def
      is_request_exception_def)

section \<open>The override amount of \<^verbatim>\<open>pay_invoice\<close> on CLN\<close>

text \<open>
  C7 (as amended). \<^verbatim>\<open>CoreLightningClient.pay_invoice\<close> issues one request to
  \<^verbatim>\<open>pay\<close>. When the override amount is present and not 0, the payload holds the invoice
  and \<^verbatim>\<open>amount_msat\<close>, the override times 1000. When the override is absent or 0, the
  payload holds the invoice only: no amount field is sent.
\<close>

theorem cln_pay_invoice_amount:
  "(\<forall>a. amount_sats = Some a \<and> a \<noteq> 0 \<longrightarrow>
      sent (snd (cln_pay_invoice c payment_request amount_sats w)) =
        sent w @ [cln_request c ''pay''
                    [(''bolt11'', PStr payment_request), (''amount_msat'', PInt (a * 1000))]])
   \<and> (amount_sats = None \<or> amount_sats = Some 0 \<longrightarrow>
      sent (snd (cln_pay_invoice c payment_request amount_sats w)) =
        sent w @ [cln_request c ''pay'' [(''bolt11'', PStr payment_request)]])"
  by (auto simp: sent_cln_pay_invoice pay_params_def)

text \<open>
  An override of 21 satoshi is sent as 21000 msat; without an override only the invoice
  is sent.
\<close>

theorem cln_pay_invoice_amount_witness:
  "sent (snd (cln_pay_invoice cln_bob ''lnbcrt1'' (Some 21) (world_with ok_backend))) =
     [cln_request cln_bob ''pay'' [(''bolt11'', PStr ''lnbcrt1''), (''amount_msat'', PInt 21000)]]
   \<and> sent (snd (cln_pay_invoice cln_bob ''lnbcrt1'' None (world_with ok_backend))) =
     [cln_request cln_bob ''pay'' [(''bolt11'', PStr ''lnbcrt1'')]]"
proof -
  have s: "sent (world_with ok_backend) = []" by (simp add: world_with_def)
  from cln_pay_invoice_amount [of "Some 21" cln_bob "''lnbcrt1''" "world_with ok_backend"] s
  have 1: "sent (snd (cln_pay_invoice cln_bob ''lnbcrt1'' (Some 21) (world_with ok_backend))) =
     [cln_request cln_bob ''pay'' [(''bolt11'', PStr ''lnbcrt1''), (''amount_msat'', PInt 21000)]]"
    by simp
  from cln_pay_invoice_amount [of None cln_bob "''lnbcrt1''" "world_with ok_backend"] s
  have 2: "sent (snd (cln_pay_invoice cln_bob ''lnbcrt1'' None (world_with ok_backend))) =
     [cln_request cln_bob ''pay'' [(''bolt11'', PStr ''lnbcrt1'')]]"
    by simp
  from 1 2 show ?thesis by simp
qed

text \<open>
  C7 as stated fails for an override that is present and 0: \<^verbatim>\<open>if amount_sats:\<close> is
  false for it, and the payload has no \<^verbatim>\<open>amount_msat\<close>.
\<close>

theorem cln_pay_invoice_zero_counterexample:
  "sent (snd (cln_pay_invoice cln_bob ''lnbcrt1'' (Some 0) (world_with ok_backend))) =
     [cln_request cln_bob ''pay'' [(''bolt11'', PStr ''lnbcrt1'')]]
   \<and> map_of [(''bolt11'', PStr ''lnbcrt1'')] ''amount_msat'' = None"
  by (simp add: sent_cln_pay_invoice pay_params_def world_with_def)

section \<open>Constructing an \<^verbatim>\<open>LNDClient\<close>\<close>



section \<open>The macaroon header\<close>




section \<open>The result of \<^verbatim>\<open>connect_peer\<close>\<close>

lemma py_split_not_Nil: "py_split sep s \<noteq> []"
  by (induction s) (auto split: list.splits)

lemma py_split_two: "sep \<in> set s \<Longrightarrow> 2 \<le> length (py_split sep s)"
proof (induction s)
  case Nil
  then show ?case by simp
next
  case (Cons c cs)
  show ?case
  proof (cases "c = sep")
    case True
    have "py_split sep cs \<noteq> []" by (rule py_split_not_Nil)
    then have "1 \<le> length (py_split sep cs)" by (cases "py_split sep cs") auto
    with True show ?thesis by simp
  next
    case False
    with Cons.prems have "sep \<in> set cs" by simp
    then have "2 \<le> length (py_split sep cs)" by (rule Cons.IH)
    with False show ?thesis by (auto split: list.splits)
  qed
qed

lemma connect_peer_addr_total: "\<exists>d. connect_peer_addr node_id host port = Inr d"
proof -
  have a: "CHR ''@'' \<in> set node_id \<Longrightarrow> \<exists>x. py_index (py_split CHR ''@'' node_id) 0 = Inr x"
    using py_split_two [of "CHR ''@''" node_id] by (auto simp: py_index_def)
  have b: "CHR ''@'' \<in> set (peer_address node_id host port)
           \<Longrightarrow> \<exists>x. py_index (py_split CHR ''@'' (peer_address node_id host port)) 1 = Inr x"
    using py_split_two [of "CHR ''@''" "peer_address node_id host port"] by (simp add: py_index_def)
  from a b show ?thesis
    by (auto simp: connect_peer_addr_def res_bind_def Let_def)
qed

lemma cln_connect_peer_cases:
  "fst (cln_connect_peer c node_id host port w) =
     (case fst (cln_make_request c ''connect'' (Some [(''id'', PStr (peer_address node_id host port))]) w) of
        Inl e \<Rightarrow> Inl (RuntimeError,
                   ''Failed to connect to peer on CLN node '' @ quoted (cln_node_name c) @ '': '' @ snd e)
      | Inr j \<Rightarrow> Inr True)"
  by (simp add: cln_connect_peer_def reraise_def io_bind_def io_pure_def split: prod.splits sum.splits)

lemma lnd_connect_peer_cases:
  "connect_peer_addr node_id host port = Inr d \<Longrightarrow>
   fst (lnd_connect_peer c node_id host port w) =
     (case fst (lnd_make_request c ''POST'' ''/v1/peers'' (Some d) w) of
        Inl e \<Rightarrow> Inl (RuntimeError,
                   ''Failed to connect to peer on LND node '' @ quoted (lnd_node_name c) @ '': '' @ snd e)
      | Inr j \<Rightarrow> Inr True)"
  by (simp add: lnd_connect_peer_def reraise_def io_bind_def io_pure_def split: prod.splits sum.splits)

text \<open>
  C10. \<^verbatim>\<open>connect_peer\<close> of either client, whatever its arguments and whatever the
  backend does, either returns \<^verbatim>\<open>True\<close> or raises \<^verbatim>\<open>RuntimeError\<close>: it never
  returns \<^verbatim>\<open>False\<close>.
\<close>

theorem connect_peer_true_or_raises:
  "(fst (cln_connect_peer c node_id host port w) = Inr True
      \<or> (\<exists>msg. fst (cln_connect_peer c node_id host port w) = Inl (RuntimeError, msg)))
   \<and> (fst (lnd_connect_peer c' node_id host port w) = Inr True
      \<or> (\<exists>msg. fst (lnd_connect_peer c' node_id host port w) = Inl (RuntimeError, msg)))
   \<and> fst (cln_connect_peer c node_id host port w) \<noteq> Inr False
   \<and> fst (lnd_connect_peer c' node_id host port w) \<noteq> Inr False"
proof -
  obtain d where d: "connect_peer_addr node_id host port = Inr d"
    using connect_peer_addr_total by blast
  have 1: "fst (cln_connect_peer c node_id host port w) = Inr True
      \<or> (\<exists>msg. fst (cln_connect_peer c node_id host port w) = Inl (RuntimeError, msg))"
    by (simp add: cln_connect_peer_cases split: sum.splits)
  have 2: "fst (lnd_connect_peer c' node_id host port w) = Inr True
      \<or> (\<exists>msg. fst (lnd_connect_peer c' node_id host port w) = Inl (RuntimeError, msg))"
    by (simp add: lnd_connect_peer_cases [OF d] split: sum.splits)
  from 1 2 show ?thesis by auto
qed

text \<open>
  Both clients return \<^verbatim>\<open>True\<close> when the backend accepts the peer and raise when the
  connection is refused.
\<close>

theorem connect_peer_true_or_raises_witness:
  "fst (cln_connect_peer cln_bob ''02cc'' (Some ''10.0.0.2'') (Some 9735) (world_with ok_backend)) = Inr True
   \<and> fst (lnd_connect_peer lnd_alice ''02cc'' (Some ''10.0.0.2'') (Some 9735) (world_with ok_backend)) = Inr True
   \<and> fst (cln_connect_peer cln_bob ''02cc'' None None (world_with refusing_backend))
       = Inl (RuntimeError, ''Failed to connect to peer on CLN node '' @ quoted ''bob''
               @ '': Failed to connect to CLN node '' @ quoted ''bob'' @ '': Connection refused'')
   \<and> fst (lnd_connect_peer lnd_alice ''02cc'' None None (world_with refusing_backend))
       = Inl (RuntimeError, ''Failed to connect to peer on LND node '' @ quoted ''alice''
               @ '': Failed to connect to LND node '' @ quoted ''alice''
               @ '' at https://localhost:8080/v1/peers: Connection refused'')"
proof -
  let ?ok = "world_with ok_backend"
  let ?no = "world_with refusing_backend"
  have a: "\<And>msg. fst (cln_connect_peer cln_bob ''02cc'' (Some ''10.0.0.2'') (Some 9735) ?ok)
             \<noteq> Inl (RuntimeError, msg)"
    by (simp add: cln_connect_peer_cases cln_make_request_def exchange_def transmit_def
        world_with_def ok_backend_def http_error_status_def)
  have b: "\<And>msg. fst (lnd_connect_peer lnd_alice ''02cc'' (Some ''10.0.0.2'') (Some 9735) ?ok)
             \<noteq> Inl (RuntimeError, msg)"
    by (simp add: lnd_connect_peer_def reraise_def io_bind_def io_pure_def connect_peer_addr_def
        res_bind_def Let_def peer_address_def py_index_def lnd_make_request_def py_upper_def
        exchange_def transmit_def world_with_def ok_backend_def http_error_status_def
        str_int_def str_nat.simps digit_char_def)
  have c: "fst (cln_connect_peer cln_bob ''02cc'' None None ?no)
       = Inl (RuntimeError, ''Failed to connect to peer on CLN node '' @ quoted ''bob''
               @ '': Failed to connect to CLN node '' @ quoted ''bob'' @ '': Connection refused'')"
    by (simp add: cln_connect_peer_cases cln_make_request_def exchange_def transmit_def
        world_with_def refusing_backend_def is_request_exception_def cln_bob_def)
  have d: "fst (lnd_connect_peer lnd_alice ''02cc'' None None ?no)
       = Inl (RuntimeError, ''Failed to connect to peer on LND node '' @ quoted ''alice''
               @ '': Failed to connect to LND node '' @ quoted ''alice''
               @ '' at https://localhost:8080/v1/peers: Connection refused'')"
    by (simp add: lnd_connect_peer_def reraise_def io_bind_def io_pure_def connect_peer_addr_def
        res_bind_def Let_def peer_address_def py_index_def lnd_make_request_def py_upper_def
        exchange_def transmit_def world_with_def refusing_backend_def lnd_rethrow_def lnd_alice_def)
  from connect_peer_true_or_raises [of cln_bob "''02cc''" "Some ''10.0.0.2''" "Some 9735" ?ok lnd_alice] a b
  have e: "fst (cln_connect_peer cln_bob ''02cc'' (Some ''10.0.0.2'') (Some 9735) ?ok) = Inr True
   \<and> fst (lnd_connect_peer lnd_alice ''02cc'' (Some ''10.0.0.2'') (Some 9735) ?ok) = Inr True"
    by blast
  from c d e show ?thesis by blast
qed

end
